theory Spec2Isabelle
  imports Main "HOL-Library.Option_ord" "HOL-Library.Product_Lexorder"
begin

section \<open>Form-builder request handlers over a relational store\<close>

text \<open>
  The repository is a set of HTTP handlers that validate a request, issue SQL statements
  against an external relational store and shape a JSON response.  The embedding keeps
  the handlers' names and their order of checks.  A handler is a function from the parsed
  request and the \<open>world\<close> (the process-wide pool promise, the store's tables, the open
  transaction, the list of statements issued so far and the writes that the store will
  refuse) to the HTTP response and the new world.

  Conventions of the embedding:
  \<^item> a JSON field that may be missing is an \<open>option\<close>; \<open>None\<close> is \<open>undefined\<close>;
  \<^item> identifiers of rows are natural numbers; an identifier field of a request is the key
    it denotes, and \<open>None\<close> stands for every falsy value of the field;
  \<^item> a nullable SQL column is an \<open>option\<close>; \<open>None\<close> is \<open>NULL\<close>;
  \<^item> a table is the list of its rows in insertion order; a query without \<open>ORDER BY\<close>
    returns its rows in join order over the tables, and \<open>recordset[0]\<close> is the first of
    them; strings are compared by equality;
  \<^item> the \<open>image_urls\<close> column holds the JSON text of a list of strings and is
    represented by that list;
  \<^item> the fields of a request have the types that the handler's interface declares;
  \<^item> two promises may be rejected: the pool promise of \<open>getPool\<close>, and an \<open>INSERT\<close>
    or \<open>UPDATE\<close> that the store refuses.  Either lands in the handler's \<open>catch\<close>
    block.  A \<open>SELECT\<close> sent to the store is answered.

  The handlers embedded are \<open>getAllQuestions\<close> (the GET handler of
  \<open>src/functions/getAllQuestions.ts\<close>), \<open>getResponse\<close>, \<open>createResponse\<close>,
  \<open>editQuestion\<close>, \<open>createQuestion\<close> (\<open>src/functions/createQuestion.ts\<close>),
  \<open>addQuestionTranslation\<close>, with \<open>createErrorResponse\<close> and \<open>getPool\<close>.
\<close>

subsection \<open>JavaScript values\<close>

text \<open>\<open>!s\<close> on a string field: true for \<open>undefined\<close> and for the empty string.\<close>

definition falsy :: "string option \<Rightarrow> bool" where
  "falsy s = (case s of None \<Rightarrow> True | Some t \<Rightarrow> t = [])"

text \<open>\<open>s || null\<close> on a string field.\<close>

definition or_null :: "string option \<Rightarrow> string option" where
  "or_null s = (if falsy s then None else s)"

text \<open>
  \<open>String(n)\<close> of a non-negative integer below 10^21: its decimal digits.  From
  there on JavaScript prints an exponent (\<open>1e+21\<close>) and \<open>decimal\<close> does not follow it; the
  keys of the store are 32-bit integers.
\<close>

definition digit :: "nat \<Rightarrow> char" where
  "digit d = char_of (48 + d)"

fun decimal :: "nat \<Rightarrow> string" where
  "decimal n = (if n < 10 then [digit n] else decimal (n div 10) @ [digit (n mod 10)])"

declare decimal.simps [simp del]

subsection \<open>HTTP responses\<close>

record option_json =
  optionId :: nat
  optionDescription :: "string option"
  position :: "int option"

record question_json =
  questionId :: nat
  description :: string
  question_type :: string
  required :: bool
  question_text :: string
  options :: "option_json list"
  qposition :: "int option"

record question_answer =
  qa_question_id :: nat
  qa_question_text :: string
  qa_answer_text :: "string option"
  qa_selected_options :: "string list option"
  qa_file_url :: "string option"

datatype json_body =
    ErrorBody string
  | QuestionsBody nat "question_json list"
  | ResponseDataBody nat "string option" nat "question_answer list"
  | ResponseCreated nat
  | MessageBody string
  | QuestionCreated nat
  | TranslationAdded string nat

record http_response =
  status :: nat
  jsonBody :: json_body

text \<open>\<open>createErrorResponse(status, error)\<close>: the uniform error envelope.\<close>

definition createErrorResponse :: "nat \<Rightarrow> string \<Rightarrow> http_response" where
  "createErrorResponse st err = \<lparr>status = st, jsonBody = ErrorBody err\<rparr>"

subsection \<open>The relational store\<close>

record user_row =
  u_id :: nat
  u_email :: string

record form_row =
  f_id :: nat
  f_user_id :: nat
  f_category :: string

record form_translation_row =
  ft_id :: nat
  ft_form_id :: nat
  ft_language :: string

record question_row =
  q_id :: nat
  q_description :: string
  q_question_type :: string
  q_required :: bool
  q_position :: "int option"
  q_image_urls :: "string list option"

record question_translation_row =
  qt_id :: nat
  qt_question_id :: nat
  qt_language :: string
  qt_question_text :: string

record question_option_row =
  qo_id :: nat
  qo_question_id :: nat
  qo_position :: "int option"

record question_option_translation_row =
  qot_id :: nat
  qot_option_id :: nat
  qot_language :: string
  qot_option_text :: string

record form_question_translation_row =
  fqt_form_translation_id :: nat
  fqt_question_translation_id :: nat
  fqt_position :: "int option"

record response_row =
  r_id :: nat
  r_form_id :: nat
  r_submitted_at :: "string option"

record answer_row =
  a_response_id :: nat
  a_question_id :: nat
  a_answer_text :: "string option"
  a_selected_options :: "string option"
  a_file_url :: "string option"

record database =
  users :: "user_row list"
  forms :: "form_row list"
  form_translations :: "form_translation_row list"
  questions :: "question_row list"
  question_translations :: "question_translation_row list"
  question_options :: "question_option_row list"
  question_option_translations :: "question_option_translation_row list"
  form_question_translations :: "form_question_translation_row list"
  responses :: "response_row list"
  answers :: "answer_row list"

text \<open>
  The schema is not part of the repository.  What an \<open>INSERT\<close> stores in a column it
  does not name is the column's default, a parameter of the model.
\<close>

record column_defaults =
  fqt_position_default :: "int option"
  submitted_at_default :: "string option"

text \<open>An identity column: the generated key is above every key of the table.\<close>

definition next_id :: "nat list \<Rightarrow> nat" where
  "next_id ids = Suc (fold max ids 0)"

subsection \<open>The process and its connection\<close>

datatype promise = Resolved | Rejected string

datatype stmt = Begin | Commit | Rollback | Select string | Insert string | Update string

record world =
  poolPromise :: "promise option"
  connect_error :: "string option"
  connects :: nat
  defaults :: column_defaults
  store :: database
  snapshot :: "database option"
  issued :: "stmt list"
  write_errors :: "string option list"

text \<open>
  \<open>poolPromise\<close> is the module variable of \<open>config/db.ts\<close>.  \<open>connect_error\<close> is the
  environment: the error with which a connection attempt made now would be rejected,
  \<open>None\<close> when the store is reachable.  \<open>connects\<close> counts the connection attempts.
  \<open>snapshot\<close> holds the tables as they were at \<open>begin\<close> while a transaction is open.
  \<open>write_errors\<close> is the environment too: the outcome of each \<open>INSERT\<close> or
  \<open>UPDATE\<close> still to come, \<open>Some err\<close> when the store will reject it with \<open>err\<close>;
  every write beyond the list is accepted.
\<close>

definition getPool :: "world \<Rightarrow> promise \<times> world" where
  "getPool w =
     (case poolPromise w of
        None \<Rightarrow>
          (let p = (case connect_error w of None \<Rightarrow> Resolved | Some err \<Rightarrow> Rejected err)
           in (p, w\<lparr>poolPromise := Some p, connects := Suc (connects w)\<rparr>))
      | Some p \<Rightarrow> (p, w))"

text \<open>
  A later moment of the same process: the environment may have changed before each call.
  \<open>getPool_calls\<close> performs one call of \<open>getPool\<close> per listed environment.
\<close>

fun getPool_calls :: "string option list \<Rightarrow> world \<Rightarrow> promise list \<times> world" where
  "getPool_calls [] w = ([], w)"
| "getPool_calls (c # cs) w =
     (let (p, w1) = getPool (w\<lparr>connect_error := c\<rparr>);
          (ps, w2) = getPool_calls cs w1
      in (p # ps, w2))"

subsection \<open>Statements and transactions\<close>

definition issue :: "stmt \<Rightarrow> world \<Rightarrow> world" where
  "issue s w = w\<lparr>issued := issued w @ [s]\<rparr>"

text \<open>A \<open>SELECT\<close>: the tables are read, the statement is recorded.\<close>

definition query :: "stmt \<Rightarrow> (database \<Rightarrow> 'a) \<Rightarrow> world \<Rightarrow> 'a \<times> world" where
  "query s f w = (f (store w), issue s w)"

text \<open>
  An \<open>INSERT\<close> or \<open>UPDATE\<close>.  The store may reject it (a constraint of the schema,
  a value too long for its column): the awaited query then throws, \<open>Inl\<close> the error, and
  no table changes.  Otherwise it returns its recordset and the changed tables.
\<close>

definition exec ::
  "stmt \<Rightarrow> (database \<Rightarrow> 'a \<times> database) \<Rightarrow> world \<Rightarrow> (string + 'a) \<times> world" where
  "exec s f w =
     (case write_errors w of
        Some err # rest \<Rightarrow> (Inl err, issue s (w\<lparr>write_errors := rest\<rparr>))
      | _ \<Rightarrow>
          (Inr (fst (f (store w))),
           issue s (w\<lparr>store := snd (f (store w)), write_errors := tl (write_errors w)\<rparr>)))"

text \<open>
  The \<open>catch\<close> block of a handler: the error is logged and answered 500.  It calls no
  rollback, so a transaction that was open stays open.
\<close>

definition caught :: "string \<Rightarrow> http_response" where
  "caught err = createErrorResponse 500 (''Internal Server Error: '' @ err)"

definition tx_begin :: "world \<Rightarrow> world" where
  "tx_begin w = issue Begin (w\<lparr>snapshot := Some (store w)\<rparr>)"

definition tx_commit :: "world \<Rightarrow> world" where
  "tx_commit w = issue Commit (w\<lparr>snapshot := None\<rparr>)"

definition tx_rollback :: "world \<Rightarrow> world" where
  "tx_rollback w =
     issue Rollback (case snapshot w of None \<Rightarrow> w | Some s \<Rightarrow> w\<lparr>store := s, snapshot := None\<rparr>)"

text \<open>What a reader outside the open transaction sees.\<close>

definition committed :: "world \<Rightarrow> database" where
  "committed w = (case snapshot w of None \<Rightarrow> store w | Some s \<Rightarrow> s)"

subsection \<open>SQL helpers\<close>

text \<open>\<open>MAX\<close> skips \<open>NULL\<close> and is \<open>NULL\<close> over no value; \<open>ISNULL(v, d)\<close>.\<close>

definition sql_max :: "int option list \<Rightarrow> int option" where
  "sql_max ps = (case [p. Some p \<leftarrow> ps] of [] \<Rightarrow> None | x # xs \<Rightarrow> Some (fold max xs x))"

definition isnull :: "int option \<Rightarrow> int \<Rightarrow> int" where
  "isnull v d = (case v of None \<Rightarrow> d | Some x \<Rightarrow> x)"

text \<open>The right side of a \<open>LEFT JOIN\<close>: one \<open>NULL\<close> row when nothing matches.\<close>

definition left_join :: "'a list \<Rightarrow> 'a option list" where
  "left_join xs = (if xs = [] then [None] else map Some xs)"

definition text_of :: "string option \<Rightarrow> string" where
  "text_of s = (case s of None \<Rightarrow> [] | Some t \<Rightarrow> t)"

subsection \<open>getAllQuestions (GET)\<close>

record getAllQuestions_query =
  gq_username :: "string option"
  gq_formLanguage :: "string option"
  gq_formType :: "string option"

record qrow =
  row_questionId :: nat
  row_description :: string
  row_question_type :: string
  row_required :: bool
  row_question_text :: string
  row_optionId :: "nat option"
  row_optionDescription :: "string option"
  row_optionPosition :: "int option"
  row_questionPosition :: "int option"
  row_form_id :: nat

text \<open>\<open>SELECT id FROM users WHERE email = @username\<close>\<close>

definition select_user :: "database \<Rightarrow> string \<Rightarrow> nat list" where
  "select_user db uname = [u_id u. u \<leftarrow> users db, u_email u = uname]"

text \<open>
  The joined question query, with its \<open>ORDER BY fqt.position, qo.position\<close> (\<open>NULL\<close>
  first; rows with equal keys stay in join order).
\<close>

definition select_questions :: "database \<Rightarrow> nat \<Rightarrow> string \<Rightarrow> string \<Rightarrow> qrow list" where
  "select_questions db userId ftype flang =
     sort_key (\<lambda>r. (row_questionPosition r, row_optionPosition r))
       [\<lparr>row_questionId = q_id q,
         row_description = q_description q,
         row_question_type = q_question_type q,
         row_required = q_required q,
         row_question_text = qt_question_text qt,
         row_optionId = map_option qo_id qo,
         row_optionDescription = map_option qot_option_text qot,
         row_optionPosition = Option.bind qo qo_position,
         row_questionPosition = fqt_position fqt,
         row_form_id = f_id f\<rparr>.
        u \<leftarrow> users db,
        f \<leftarrow> forms db, u_id u = f_user_id f,
        ft \<leftarrow> form_translations db, f_id f = ft_form_id ft,
        fqt \<leftarrow> form_question_translations db, ft_id ft = fqt_form_translation_id fqt,
        qt \<leftarrow> question_translations db, fqt_question_translation_id fqt = qt_id qt,
        q \<leftarrow> questions db, qt_question_id qt = q_id q,
        qo \<leftarrow> left_join [qo \<leftarrow> question_options db. q_id q = qo_question_id qo],
        qot \<leftarrow> left_join (case qo of None \<Rightarrow> []
                  | Some op \<Rightarrow> [t \<leftarrow> question_option_translations db. qo_id op = qot_option_id t]),
        u_id u = userId \<and> f_category f = ftype \<and> ft_language ft = flang]"

text \<open>
  The grouping loop.  \<open>questionsMap\<close> is a JavaScript object keyed by \<open>questionId\<close>;
  it is kept as the list of its entries in insertion order.
\<close>

definition new_question :: "qrow \<Rightarrow> question_json" where
  "new_question row =
     \<lparr>questionId = row_questionId row,
      description = row_description row,
      question_type = row_question_type row,
      required = row_required row,
      question_text = row_question_text row,
      options = [],
      qposition = row_questionPosition row\<rparr>"

definition push_option :: "nat \<Rightarrow> option_json \<Rightarrow> (nat \<times> question_json) list \<Rightarrow> (nat \<times> question_json) list" where
  "push_option qId opt m =
     map (\<lambda>e. if fst e = qId then (fst e, (snd e)\<lparr>options := options (snd e) @ [opt]\<rparr>) else e) m"

definition add_row :: "(nat \<times> question_json) list \<Rightarrow> qrow \<Rightarrow> (nat \<times> question_json) list" where
  "add_row questionsMap row =
     (let qId = row_questionId row;
          m1 = (if map_of questionsMap qId = None
                then questionsMap @ [(qId, new_question row)] else questionsMap)
      in case row_optionId row of
           None \<Rightarrow> m1
         | Some oid \<Rightarrow>
             if oid = 0 then m1
             else push_option qId
                    \<lparr>optionId = oid, optionDescription = row_optionDescription row,
                     position = row_optionPosition row\<rparr> m1)"

text \<open>
  \<open>Object.values\<close> lists the properties whose key is an array index (an integer below
  \<open>2^32 - 1\<close>) in ascending numeric order, then the others in insertion order.
\<close>

definition is_array_index :: "nat \<Rightarrow> bool" where
  "is_array_index k = (k < 4294967295)"

definition object_values :: "(nat \<times> 'a) list \<Rightarrow> 'a list" where
  "object_values m =
     map snd (sort_key fst (filter (\<lambda>e. is_array_index (fst e)) m)) @
     map snd (filter (\<lambda>e. \<not> is_array_index (fst e)) m)"

text \<open>
  The comparator \<open>(a, b) => a.position - b.position\<close> reads \<open>null\<close> as \<open>0\<close>;
  \<open>Array.prototype.sort\<close> is stable.
\<close>

definition num :: "int option \<Rightarrow> int" where
  "num p = (case p of None \<Rightarrow> 0 | Some n \<Rightarrow> n)"

definition group_questions :: "qrow list \<Rightarrow> question_json list" where
  "group_questions rows =
     sort_key (\<lambda>q. num (qposition q))
       (map (\<lambda>q. q\<lparr>options := sort_key (\<lambda>a. num (position a)) (options q)\<rparr>)
          (object_values (foldl add_row [] rows)))"

definition getAllQuestions :: "getAllQuestions_query \<Rightarrow> world \<Rightarrow> http_response \<times> world" where
  "getAllQuestions req w =
     (if falsy (gq_username req) \<or> falsy (gq_formLanguage req) \<or> falsy (gq_formType req)
      then (createErrorResponse 400
              ''username, formLanguage, and formType are required query parameters'', w)
      else
        case getPool w of
          (Rejected err, w1) \<Rightarrow>
            (createErrorResponse 500 (''Internal Server Error: '' @ err), w1)
        | (Resolved, w1) \<Rightarrow>
            (case query (Select ''users'')
                    (\<lambda>db. select_user db (text_of (gq_username req))) w1 of
               ([], w2) \<Rightarrow> (createErrorResponse 404 ''User not found'', w2)
             | (userId # _, w2) \<Rightarrow>
                 (case query (Select ''questions'')
                         (\<lambda>db. select_questions db userId (text_of (gq_formType req))
                                  (text_of (gq_formLanguage req))) w2 of
                    ([], w3) \<Rightarrow>
                      (createErrorResponse 404
                         ''No questions found for the specified criteria'', w3)
                  | (row0 # rows, w3) \<Rightarrow>
                      (\<lparr>status = 200,
                        jsonBody = QuestionsBody (row_form_id row0)
                                     (group_questions (row0 # rows))\<rparr>, w3))))"

subsection \<open>getResponse\<close>

text \<open>\<open>SELECT r.id, r.submitted_at, r.form_id FROM responses r WHERE r.id = @responseId\<close>\<close>

definition select_response :: "database \<Rightarrow> nat \<Rightarrow> response_row list" where
  "select_response db responseId = [r \<leftarrow> responses db. r_id r = responseId]"

record arow =
  ar_position :: "int option"
  ar_question_id :: nat
  ar_question_text :: string
  ar_answer_text :: "string option"
  ar_selected_options :: "string option"
  ar_file_url :: "string option"

text \<open>The questions of the form with the answers of the response, \<open>ORDER BY fqt.position\<close>.\<close>

definition select_answers :: "database \<Rightarrow> nat \<Rightarrow> nat \<Rightarrow> arow list" where
  "select_answers db responseId formId =
     sort_key ar_position
       [\<lparr>ar_position = fqt_position fqt,
         ar_question_id = q_id q,
         ar_question_text = qt_question_text qt,
         ar_answer_text = Option.bind a a_answer_text,
         ar_selected_options = Option.bind a a_selected_options,
         ar_file_url = Option.bind a a_file_url\<rparr>.
        q \<leftarrow> questions db,
        qt \<leftarrow> question_translations db, q_id q = qt_question_id qt,
        fqt \<leftarrow> form_question_translations db, qt_id qt = fqt_question_translation_id fqt,
        ft \<leftarrow> form_translations db, fqt_form_translation_id fqt = ft_id ft,
        a \<leftarrow> left_join [a \<leftarrow> answers db. a_question_id a = q_id q \<and> a_response_id a = responseId],
        ft_form_id ft = formId]"

text \<open>\<open>s.split(',')\<close>\<close>

fun split_comma :: "string \<Rightarrow> string list" where
  "split_comma [] = [[]]"
| "split_comma (c # cs) =
     (if c = CHR '','' then [] # split_comma cs
      else (case split_comma cs of [] \<Rightarrow> [[c]] | p # ps \<Rightarrow> (c # p) # ps))"

text \<open>\<open>row.selected_options ? row.selected_options.split(',') : undefined\<close>\<close>

definition read_selected_options :: "string option \<Rightarrow> string list option" where
  "read_selected_options col =
     (case col of None \<Rightarrow> None | Some s \<Rightarrow> if s = [] then None else Some (split_comma s))"

definition answer_of_row :: "arow \<Rightarrow> question_answer" where
  "answer_of_row row =
     \<lparr>qa_question_id = ar_question_id row,
      qa_question_text = ar_question_text row,
      qa_answer_text = or_null (ar_answer_text row),
      qa_selected_options = read_selected_options (ar_selected_options row),
      qa_file_url = or_null (ar_file_url row)\<rparr>"

definition getResponse :: "nat option \<Rightarrow> world \<Rightarrow> http_response \<times> world" where
  "getResponse response_id w =
     (case response_id of
        None \<Rightarrow> (createErrorResponse 400 ''response_id is required'', w)
      | Some responseId \<Rightarrow>
          (case getPool w of
             (Rejected err, w1) \<Rightarrow>
               (createErrorResponse 500 (''Internal Server Error: '' @ err), w1)
           | (Resolved, w1) \<Rightarrow>
               (case query (Select ''responses'') (\<lambda>db. select_response db responseId) w1 of
                  ([], w2) \<Rightarrow> (createErrorResponse 404 ''Response not found'', w2)
                | (response # _, w2) \<Rightarrow>
                    (let (rows, w3) = query (Select ''questions'')
                           (\<lambda>db. select_answers db responseId (r_form_id response)) w2
                     in (\<lparr>status = 200,
                          jsonBody = ResponseDataBody (r_id response) (r_submitted_at response)
                                       (r_form_id response) (map answer_of_row rows)\<rparr>, w3)))))"

subsection \<open>createResponse\<close>

record AnswerData =
  ad_question_id :: "nat option"
  ad_answer_text :: "string option"
  ad_selected_options :: "string list option"
  ad_file_url :: "string option"



text \<open>\<open>INSERT INTO responses (form_id) OUTPUT INSERTED.id VALUES (@formId)\<close>\<close>

definition insert_response :: "column_defaults \<Rightarrow> nat \<Rightarrow> database \<Rightarrow> nat list \<times> database" where
  "insert_response dflt formId db =
     (let new = next_id (map r_id (responses db))
      in ([new], db\<lparr>responses := responses db @
             [\<lparr>r_id = new, r_form_id = formId, r_submitted_at = submitted_at_default dflt\<rparr>]\<rparr>))"

text \<open>The question of that id, through its translations, among the questions of the form.\<close>

definition select_question_in_form :: "database \<Rightarrow> nat \<Rightarrow> nat \<Rightarrow> nat list" where
  "select_question_in_form db qid formId =
     [q_id q.
        q \<leftarrow> questions db,
        qt \<leftarrow> question_translations db, q_id q = qt_question_id qt,
        fqt \<leftarrow> form_question_translations db, qt_id qt = fqt_question_translation_id fqt,
        ft \<leftarrow> form_translations db, fqt_form_translation_id fqt = ft_id ft,
        q_id q = qid \<and> ft_form_id ft = formId]"

text \<open>\<open>xs.join(',')\<close>\<close>

fun join_comma :: "string list \<Rightarrow> string" where
  "join_comma [] = []"
| "join_comma [x] = x"
| "join_comma (x # y # ys) = x @ CHR '','' # join_comma (y # ys)"

text \<open>\<open>selected_options ? selected_options.join(',') : null\<close>: every array is truthy.\<close>

definition store_selected_options :: "string list option \<Rightarrow> string option" where
  "store_selected_options sel = (case sel of None \<Rightarrow> None | Some xs \<Rightarrow> Some (join_comma xs))"

definition insert_answer :: "nat \<Rightarrow> nat \<Rightarrow> AnswerData \<Rightarrow> database \<Rightarrow> unit \<times> database" where
  "insert_answer responseId question_id answer db =
     ((), db\<lparr>answers := answers db @
            [\<lparr>a_response_id = responseId,
              a_question_id = question_id,
              a_answer_text = or_null (ad_answer_text answer),
              a_selected_options = store_selected_options (ad_selected_options answer),
              a_file_url = or_null (ad_file_url answer)\<rparr>]\<rparr>)"




subsection \<open>editQuestion\<close>

record TranslationEdit =
  te_translation_id :: "nat option"
  te_question_text :: string

record EditQuestionRequest =
  eq_question_id :: "nat option"
  eq_description :: "string option"
  eq_position :: "int option"
  eq_question_type :: "string option"
  eq_required :: "bool option"
  eq_image_urls :: "string list option"
  eq_translations :: "TranslationEdit list option"

text \<open>\<open>questionUpdateFields.length > 0\<close>\<close>

definition has_update_fields :: "EditQuestionRequest \<Rightarrow> bool" where
  "has_update_fields body =
     (eq_description body \<noteq> None \<or> eq_position body \<noteq> None \<or> eq_question_type body \<noteq> None \<or>
      eq_required body \<noteq> None \<or> eq_image_urls body \<noteq> None)"

text \<open>\<open>UPDATE questions SET\<close> the fields present \<open>WHERE id = @question_id\<close>\<close>

definition set_fields :: "EditQuestionRequest \<Rightarrow> question_row \<Rightarrow> question_row" where
  "set_fields body q =
     q\<lparr>q_description := (case eq_description body of None \<Rightarrow> q_description q | Some d \<Rightarrow> d),
       q_position := (case eq_position body of None \<Rightarrow> q_position q | Some p \<Rightarrow> Some p),
       q_question_type := (case eq_question_type body of None \<Rightarrow> q_question_type q | Some t \<Rightarrow> t),
       q_required := (case eq_required body of None \<Rightarrow> q_required q | Some r \<Rightarrow> r),
       q_image_urls := (case eq_image_urls body of None \<Rightarrow> q_image_urls q | Some us \<Rightarrow> Some us)\<rparr>"

definition update_question :: "nat \<Rightarrow> EditQuestionRequest \<Rightarrow> database \<Rightarrow> unit \<times> database" where
  "update_question question_id body db =
     ((), db\<lparr>questions :=
            map (\<lambda>q. if q_id q = question_id then set_fields body q else q) (questions db)\<rparr>)"

text \<open>\<open>UPDATE question_translations SET question_text = @question_text WHERE id = @translation_id\<close>\<close>

definition update_translation :: "nat \<Rightarrow> string \<Rightarrow> database \<Rightarrow> unit \<times> database" where
  "update_translation translation_id txt db =
     ((), db\<lparr>question_translations :=
            map (\<lambda>t. if qt_id t = translation_id then t\<lparr>qt_question_text := txt\<rparr> else t)
              (question_translations db)\<rparr>)"

fun editQuestion_translations :: "TranslationEdit list \<Rightarrow> world \<Rightarrow> http_response option \<times> world" where
  "editQuestion_translations [] w = (None, w)"
| "editQuestion_translations (translation # rest) w =
     (case te_translation_id translation of
        None \<Rightarrow>
          (Some (createErrorResponse 400 ''translation_id is required for each translation''), w)
      | Some translation_id \<Rightarrow>
          (case exec (Update ''question_translations'')
                  (update_translation translation_id (te_question_text translation)) w of
             (Inl err, w1) \<Rightarrow> (Some (caught err), w1)
           | (Inr _, w1) \<Rightarrow> editQuestion_translations rest w1))"

definition editQuestion :: "EditQuestionRequest \<Rightarrow> world \<Rightarrow> http_response \<times> world" where
  "editQuestion body w =
     (case eq_question_id body of
        None \<Rightarrow> (createErrorResponse 400 ''question_id is required'', w)
      | Some question_id \<Rightarrow>
          (case getPool w of
             (Rejected err, w1) \<Rightarrow>
               (createErrorResponse 500 (''Internal Server Error: '' @ err), w1)
           | (Resolved, w1) \<Rightarrow>
               (case (if has_update_fields body
                      then exec (Update ''questions'') (update_question question_id body) w1
                      else (Inr (), w1)) of
                  (Inl err, w2) \<Rightarrow> (caught err, w2)
                | (Inr _, w2) \<Rightarrow>
                    (case editQuestion_translations
                            (case eq_translations body of None \<Rightarrow> [] | Some ts \<Rightarrow> ts) w2 of
                       (Some resp, w3) \<Rightarrow> (resp, w3)
                     | (None, w3) \<Rightarrow>
                         (\<lparr>status = 200,
                           jsonBody = MessageBody ''Question updated successfully''\<rparr>, w3)))))"

subsection \<open>createQuestion\<close>

record QuestionData =
  qd_description :: "string option"
  qd_question_type :: "string option"
  qd_required :: "bool option"
  qd_question_text :: "string option"
  qd_image_urls :: "string list option"

record OptionData =
  od_description :: "string option"
  od_language :: "string option"

record CreateQuestionRequest =
  cq_username :: "string option"
  cq_form_type :: "string option"
  cq_form_language :: "string option"
  cq_question :: "QuestionData option"
  cq_options :: "OptionData list option"

text \<open>\<open>SELECT id FROM forms WHERE user_id = @userId AND category = @form_type\<close>\<close>

definition select_user_form :: "database \<Rightarrow> nat \<Rightarrow> string \<Rightarrow> nat list" where
  "select_user_form db userId ftype =
     [f_id f. f \<leftarrow> forms db, f_user_id f = userId \<and> f_category f = ftype]"

text \<open>\<open>SELECT id FROM form_translations WHERE form_id = @formId AND language = @form_language\<close>\<close>

definition select_form_translation :: "database \<Rightarrow> nat \<Rightarrow> string \<Rightarrow> nat list" where
  "select_form_translation db formId flang =
     [ft_id ft. ft \<leftarrow> form_translations db, ft_form_id ft = formId \<and> ft_language ft = flang]"

text \<open>
  \<open>SELECT ISNULL(MAX(q.position), 0)\<close> over the questions linked to the form translation.
\<close>

definition select_max_question_position :: "database \<Rightarrow> nat \<Rightarrow> int" where
  "select_max_question_position db formTranslationId =
     isnull (sql_max
       [q_position q.
          q \<leftarrow> questions db,
          qt \<leftarrow> question_translations db, q_id q = qt_question_id qt,
          fqt \<leftarrow> form_question_translations db, qt_id qt = fqt_question_translation_id fqt,
          fqt_form_translation_id fqt = formTranslationId]) 0"

definition insert_question ::
  "string \<Rightarrow> string \<Rightarrow> bool \<Rightarrow> int \<Rightarrow> string list option \<Rightarrow> database \<Rightarrow> nat list \<times> database" where
  "insert_question descr qtype req pos urls db =
     (let new = next_id (map q_id (questions db))
      in ([new], db\<lparr>questions := questions db @
             [\<lparr>q_id = new, q_description = descr, q_question_type = qtype, q_required = req,
               q_position = Some pos, q_image_urls = urls\<rparr>]\<rparr>))"

definition insert_question_translation ::
  "nat \<Rightarrow> string \<Rightarrow> string \<Rightarrow> database \<Rightarrow> nat list \<times> database" where
  "insert_question_translation qid lang txt db =
     (let new = next_id (map qt_id (question_translations db))
      in ([new], db\<lparr>question_translations := question_translations db @
             [\<lparr>qt_id = new, qt_question_id = qid, qt_language = lang,
               qt_question_text = txt\<rparr>]\<rparr>))"

text \<open>\<open>SELECT ISNULL(MAX(position), 0) FROM question_options WHERE question_id = @question_id\<close>\<close>

definition select_max_option_position :: "database \<Rightarrow> nat \<Rightarrow> int" where
  "select_max_option_position db qid =
     isnull (sql_max [qo_position qo. qo \<leftarrow> question_options db, qo_question_id qo = qid]) 0"

definition insert_option :: "nat \<Rightarrow> int \<Rightarrow> database \<Rightarrow> nat list \<times> database" where
  "insert_option qid pos db =
     (let new = next_id (map qo_id (question_options db))
      in ([new], db\<lparr>question_options := question_options db @
             [\<lparr>qo_id = new, qo_question_id = qid, qo_position = Some pos\<rparr>]\<rparr>))"

definition insert_option_translation :: "nat \<Rightarrow> string \<Rightarrow> string \<Rightarrow> database \<Rightarrow> unit \<times> database" where
  "insert_option_translation oid lang txt db =
     ((), db\<lparr>question_option_translations := question_option_translations db @
            [\<lparr>qot_id = next_id (map qot_id (question_option_translations db)),
              qot_option_id = oid, qot_language = lang, qot_option_text = txt\<rparr>]\<rparr>)"

text \<open>
  \<open>INSERT INTO form_question_translations (form_translation_id, question_translation_id)\<close>:
  the position column is not named and takes its default.
\<close>

definition insert_form_question_translation ::
  "column_defaults \<Rightarrow> nat \<Rightarrow> nat \<Rightarrow> database \<Rightarrow> unit \<times> database" where
  "insert_form_question_translation dflt ftid qtid db =
     ((), db\<lparr>form_question_translations := form_question_translations db @
            [\<lparr>fqt_form_translation_id = ftid, fqt_question_translation_id = qtid,
              fqt_position = fqt_position_default dflt\<rparr>]\<rparr>)"

text \<open>The loop over the options; \<open>currentPosition\<close> is incremented before each insert.\<close>

fun createQuestion_options ::
  "nat \<Rightarrow> int \<Rightarrow> OptionData list \<Rightarrow> world \<Rightarrow> http_response option \<times> world" where
  "createQuestion_options qid currentPosition [] w = (None, w)"
| "createQuestion_options qid currentPosition (opt # rest) w =
     (if falsy (od_description opt) \<or> falsy (od_language opt)
      then (Some (createErrorResponse 400 ''Each option must include description and language''),
            tx_rollback w)
      else
        case exec (Insert ''question_options'') (insert_option qid (currentPosition + 1)) w of
          (Inl err, w1) \<Rightarrow> (Some (caught err), w1)
        | (Inr [], w1) \<Rightarrow>
            (Some (createErrorResponse 500 ''Failed to insert question option''), tx_rollback w1)
        | (Inr (oid # _), w1) \<Rightarrow>
            (case exec (Insert ''question_option_translations'')
                    (insert_option_translation oid (text_of (od_language opt))
                       (text_of (od_description opt))) w1 of
               (Inl err, w2) \<Rightarrow> (Some (caught err), w2)
             | (Inr _, w2) \<Rightarrow> createQuestion_options qid (currentPosition + 1) rest w2))"

text \<open>Steps 4 to 7 of the handler, after the three lookups.\<close>

definition createQuestion_insert ::
  "CreateQuestionRequest \<Rightarrow> QuestionData \<Rightarrow> nat \<Rightarrow> world \<Rightarrow> http_response \<times> world" where
  "createQuestion_insert req question formTranslationId w =
     (let (maxQuestionPosition, w1) =
            query (Select ''questions'')
              (\<lambda>db. select_max_question_position db formTranslationId) w;
          questionPosition = maxQuestionPosition + 1
      in case exec (Insert ''questions'')
                (insert_question (text_of (qd_description question))
                   (text_of (qd_question_type question))
                   (case qd_required question of None \<Rightarrow> False | Some r \<Rightarrow> r)
                   questionPosition (qd_image_urls question)) w1 of
           (Inl err, w2) \<Rightarrow> (caught err, w2)
         | (Inr [], w2) \<Rightarrow>
             (createErrorResponse 500 ''Failed to insert question'', tx_rollback w2)
         | (Inr (qid # _), w2) \<Rightarrow>
             (case exec (Insert ''question_translations'')
                     (insert_question_translation qid (text_of (cq_form_language req))
                        (text_of (qd_question_text question))) w2 of
                (Inl err, w3) \<Rightarrow> (caught err, w3)
              | (Inr [], w3) \<Rightarrow>
                  (createErrorResponse 500 ''Failed to insert question translation'',
                   tx_rollback w3)
              | (Inr (questionTranslationId # _), w3) \<Rightarrow>
                  (case (case cq_options req of
                           None \<Rightarrow> (None, w3)
                         | Some opts \<Rightarrow>
                             (let (maxPos, w4) =
                                    query (Select ''question_options'')
                                      (\<lambda>db. select_max_option_position db qid) w3
                              in createQuestion_options qid maxPos opts w4)) of
                     (Some resp, w5) \<Rightarrow> (resp, w5)
                   | (None, w5) \<Rightarrow>
                       (case exec (Insert ''form_question_translations'')
                               (insert_form_question_translation (defaults w5)
                                  formTranslationId questionTranslationId) w5 of
                          (Inl err, w6) \<Rightarrow> (caught err, w6)
                        | (Inr _, w6) \<Rightarrow>
                            (\<lparr>status = 201, jsonBody = QuestionCreated qid\<rparr>,
                             tx_commit w6)))))"

text \<open>The transaction: the body of the \<open>try\<close> block once the pool is acquired.\<close>

definition createQuestion_tx ::
  "CreateQuestionRequest \<Rightarrow> QuestionData \<Rightarrow> world \<Rightarrow> http_response \<times> world" where
  "createQuestion_tx req question w1 =
     (let w2 = tx_begin w1 in
      case query (Select ''users'') (\<lambda>db. select_user db (text_of (cq_username req))) w2 of
        ([], w3) \<Rightarrow> (createErrorResponse 404 ''User not found'', tx_rollback w3)
      | (userId # _, w3) \<Rightarrow>
          (case query (Select ''forms'')
                  (\<lambda>db. select_user_form db userId (text_of (cq_form_type req))) w3 of
             ([], w4) \<Rightarrow>
               (createErrorResponse 404 ''Form not found for given user and form type'',
                tx_rollback w4)
           | (formId # _, w4) \<Rightarrow>
               (case query (Select ''form_translations'')
                       (\<lambda>db. select_form_translation db formId
                                (text_of (cq_form_language req))) w4 of
                  ([], w5) \<Rightarrow>
                    (createErrorResponse 404
                       ''Form translation not found for the provided language'',
                     tx_rollback w5)
                | (formTranslationId # _, w5) \<Rightarrow>
                    createQuestion_insert req question formTranslationId w5)))"

definition createQuestion :: "CreateQuestionRequest \<Rightarrow> world \<Rightarrow> http_response \<times> world" where
  "createQuestion req w =
     (case cq_question req of
        None \<Rightarrow>
          (createErrorResponse 400
             ''username, form_type, form_language and question are required'', w)
      | Some question \<Rightarrow>
          if falsy (cq_username req) \<or> falsy (cq_form_type req) \<or> falsy (cq_form_language req)
          then (createErrorResponse 400
                  ''username, form_type, form_language and question are required'', w)
          else if falsy (qd_description question) \<or> falsy (qd_question_type question) \<or>
                  falsy (qd_question_text question)
          then (createErrorResponse 400
                  ''question must include description, question_type and question_text'', w)
          else if qd_question_type question = Some ''radio_image'' \<and>
                  (case qd_image_urls question of None \<Rightarrow> True | Some urls \<Rightarrow> urls = [])
          then (createErrorResponse 400
                  ''radio_image questions must include image_urls array'', w)
          else
            case getPool w of
              (Rejected err, w1) \<Rightarrow>
                (createErrorResponse 500 (''Internal Server Error: '' @ err), w1)
            | (Resolved, w1) \<Rightarrow> createQuestion_tx req question w1)"

subsection \<open>addQuestionTranslation\<close>

record OptionTranslation =
  ot_option_id :: "nat option"
  ot_option_text :: "string option"

record AddQuestionTranslationRequest =
  aq_question_id :: "nat option"
  aq_language :: "string option"
  aq_question_text :: "string option"
  aq_form_type :: "string option"
  aq_options :: "OptionTranslation list option"

text \<open>A word between single quotes, as the messages of this handler write it.\<close>

definition quoted :: "string \<Rightarrow> string" where
  "quoted s = CHR 0x27 # s @ [CHR 0x27]"

text \<open>\<open>SELECT id FROM questions WHERE id = @questionId\<close>\<close>

definition select_question :: "database \<Rightarrow> nat \<Rightarrow> nat list" where
  "select_question db qid = [q_id q. q \<leftarrow> questions db, q_id q = qid]"

text \<open>
  \<open>SELECT id FROM question_translations WHERE question_id = @transQuestionId AND
  language = @transLanguage\<close>
\<close>

definition select_existing_translation :: "database \<Rightarrow> nat \<Rightarrow> string \<Rightarrow> nat list" where
  "select_existing_translation db qid lang =
     [qt_id t. t \<leftarrow> question_translations db, qt_question_id t = qid \<and> qt_language t = lang]"

text \<open>\<open>SELECT id FROM question_options WHERE id = @optionId AND question_id = @optionQuestionId\<close>\<close>

definition select_option :: "database \<Rightarrow> nat \<Rightarrow> nat \<Rightarrow> nat list" where
  "select_option db oid qid =
     [qo_id qo. qo \<leftarrow> question_options db, qo_id qo = oid \<and> qo_question_id qo = qid]"

definition select_existing_option_translation :: "database \<Rightarrow> nat \<Rightarrow> string \<Rightarrow> nat list" where
  "select_existing_option_translation db oid lang =
     [qot_id t. t \<leftarrow> question_option_translations db,
        qot_option_id t = oid \<and> qot_language t = lang]"

text \<open>
  \<open>SELECT ft.id FROM form_translations ft JOIN forms f ON ft.form_id = f.id
  WHERE f.category = @formType AND ft.language = @formLanguage\<close>
\<close>

definition select_category_translation :: "database \<Rightarrow> string \<Rightarrow> string \<Rightarrow> nat list" where
  "select_category_translation db ftype lang =
     [ft_id ft. ft \<leftarrow> form_translations db, f \<leftarrow> forms db, ft_form_id ft = f_id f,
        f_category f = ftype \<and> ft_language ft = lang]"

fun addQuestionTranslation_options ::
  "nat \<Rightarrow> string \<Rightarrow> OptionTranslation list \<Rightarrow> world \<Rightarrow> http_response option \<times> world" where
  "addQuestionTranslation_options qid lang [] w = (None, w)"
| "addQuestionTranslation_options qid lang (opt # rest) w =
     (case ot_option_id opt of
        None \<Rightarrow>
          (Some (createErrorResponse 400
             ''Each option translation must include option_id and option_text''), tx_rollback w)
      | Some option_id \<Rightarrow>
          if falsy (ot_option_text opt)
          then (Some (createErrorResponse 400
                  ''Each option translation must include option_id and option_text''),
                tx_rollback w)
          else
            case query (Select ''question_options'') (\<lambda>db. select_option db option_id qid) w of
              ([], w1) \<Rightarrow>
                (Some (createErrorResponse 404
                   (''Option with ID '' @ decimal option_id @
                    '' not found or does not belong to the question'')), tx_rollback w1)
            | (_ # _, w1) \<Rightarrow>
                (case query (Select ''question_option_translations'')
                        (\<lambda>db. select_existing_option_translation db option_id lang) w1 of
                   (_ # _, w2) \<Rightarrow>
                     (Some (createErrorResponse 409
                        (''A translation for option '' @ decimal option_id @
                         '' in language '' @ lang @ '' already exists'')), tx_rollback w2)
                 | ([], w2) \<Rightarrow>
                     (case exec (Insert ''question_option_translations'')
                             (insert_option_translation option_id lang
                                (text_of (ot_option_text opt))) w2 of
                        (Inl err, w3) \<Rightarrow> (Some (caught err), w3)
                      | (Inr _, w3) \<Rightarrow>
                          addQuestionTranslation_options qid lang rest w3)))"

text \<open>The transaction: the body of the \<open>try\<close> block once the pool is acquired.\<close>

definition addQuestionTranslation_tx ::
  "nat \<Rightarrow> string \<Rightarrow> AddQuestionTranslationRequest \<Rightarrow> world \<Rightarrow> http_response \<times> world" where
  "addQuestionTranslation_tx question_id lang req w1 =
     (let w2 = tx_begin w1 in
      case query (Select ''questions'') (\<lambda>db. select_question db question_id) w2 of
        ([], w3) \<Rightarrow> (createErrorResponse 404 ''Question not found'', tx_rollback w3)
      | (_ # _, w3) \<Rightarrow>
          (case query (Select ''question_translations'')
                  (\<lambda>db. select_existing_translation db question_id lang) w3 of
             (_ # _, w4) \<Rightarrow>
               (createErrorResponse 409 ''A translation for this language already exists'',
                tx_rollback w4)
           | ([], w4) \<Rightarrow>
               (case exec (Insert ''question_translations'')
                       (insert_question_translation question_id lang
                          (text_of (aq_question_text req))) w4 of
                  (Inl err, w5) \<Rightarrow> (caught err, w5)
                | (Inr [], w5) \<Rightarrow>
                    (createErrorResponse 500 ''Failed to insert question translation'',
                     tx_rollback w5)
                | (Inr (questionTranslationId # _), w5) \<Rightarrow>
                    (case addQuestionTranslation_options question_id lang
                            (case aq_options req of None \<Rightarrow> [] | Some opts \<Rightarrow> opts) w5 of
                       (Some resp, w6) \<Rightarrow> (resp, w6)
                     | (None, w6) \<Rightarrow>
                         (let (formTransResult, w7) =
                                query (Select ''form_translations'')
                                  (\<lambda>db. select_category_translation db
                                           (text_of (aq_form_type req)) lang) w6
                          in case (case formTransResult of
                                     [] \<Rightarrow> (Inr (), w7)
                                   | formTranslationId # _ \<Rightarrow>
                                       (case exec (Insert ''form_question_translations'')
                                               (insert_form_question_translation (defaults w7)
                                                  formTranslationId questionTranslationId) w7 of
                                          (Inl err, w8) \<Rightarrow> (Inl err, w8)
                                        | (Inr _, w8) \<Rightarrow> (Inr (), w8))) of
                               (Inl err, w8) \<Rightarrow> (caught err, w8)
                             | (Inr _, w8) \<Rightarrow>
                                 (\<lparr>status = 201,
                                   jsonBody = TranslationAdded
                                     ''Question translation added successfully''
                                     questionTranslationId\<rparr>, tx_commit w8))))))"

definition addQuestionTranslation ::
  "AddQuestionTranslationRequest \<Rightarrow> world \<Rightarrow> http_response \<times> world" where
  "addQuestionTranslation req w =
     (case aq_question_id req of
        None \<Rightarrow>
          (createErrorResponse 400
             ''question_id, language, question_text, and form_type are required'', w)
      | Some question_id \<Rightarrow>
          if falsy (aq_language req) \<or> falsy (aq_question_text req) \<or> falsy (aq_form_type req)
          then (createErrorResponse 400
                  ''question_id, language, question_text, and form_type are required'', w)
          else if aq_language req \<noteq> Some ''en'' \<and> aq_language req \<noteq> Some ''es''
          then (createErrorResponse 400
                  (''language must be either '' @ quoted ''en'' @ '' or '' @ quoted ''es''), w)
          else if aq_form_type req \<noteq> Some ''custom'' \<and> aq_form_type req \<noteq> Some ''flash'' \<and>
                  aq_form_type req \<noteq> Some ''touchup''
          then (createErrorResponse 400
                  (''form_type must be either '' @ quoted ''custom'' @ '', '' @
                   quoted ''flash'' @ '', or '' @ quoted ''touchup''), w)
          else
            case getPool w of
              (Rejected err, w1) \<Rightarrow>
                (createErrorResponse 500 (''Internal Server Error: '' @ err), w1)
            | (Resolved, w1) \<Rightarrow>
                addQuestionTranslation_tx question_id (text_of (aq_language req)) req w1)"

subsection \<open>Stores and requests used as concrete inputs\<close>

text \<open>
  A process that has not connected yet, over the given tables; no column has a default
  and the store is reachable.
\<close>

definition world_of :: "database \<Rightarrow> world" where
  "world_of db =
     \<lparr>poolPromise = None, connect_error = None, connects = 0,
      defaults = \<lparr>fqt_position_default = None, submitted_at_default = None\<rparr>,
      store = db, snapshot = None, issued = [], write_errors = []\<rparr>"

text \<open>The user \<open>a@b.com\<close> with one \<open>flash\<close> form translated to \<open>en\<close>, and no question.\<close>

definition db_empty_form :: database where
  "db_empty_form =
     \<lparr>users = [\<lparr>u_id = 1, u_email = ''a@b.com''\<rparr>],
      forms = [\<lparr>f_id = 1, f_user_id = 1, f_category = ''flash''\<rparr>],
      form_translations = [\<lparr>ft_id = 1, ft_form_id = 1, ft_language = ''en''\<rparr>],
      questions = [], question_translations = [], question_options = [],
      question_option_translations = [], form_question_translations = [],
      responses = [], answers = []\<rparr>"

text \<open>The same form with one question at position 1, translated to \<open>en\<close>.\<close>

definition db_one_question :: database where
  "db_one_question =
     db_empty_form
       \<lparr>questions := [\<lparr>q_id = 1, q_description = ''d'', q_question_type = ''text'',
                       q_required = False, q_position = Some 1, q_image_urls = None\<rparr>],
        question_translations := [\<lparr>qt_id = 1, qt_question_id = 1, qt_language = ''en'',
                                   qt_question_text = ''Q1?''\<rparr>],
        form_question_translations := [\<lparr>fqt_form_translation_id = 1,
                                        fqt_question_translation_id = 1,
                                        fqt_position = Some 1\<rparr>]\<rparr>"

text \<open>A process whose store is unreachable at its first call.\<close>


definition world_down :: world where
  "world_down = (world_of db_empty_form)\<lparr>connect_error := Some ''ECONNREFUSED''\<rparr>"

definition translation_request_fr :: AddQuestionTranslationRequest where
  "translation_request_fr =
     \<lparr>aq_question_id = Some 1, aq_language = Some ''fr'', aq_question_text = Some ''Q1 ?'',
      aq_form_type = Some ''flash'', aq_options = None\<rparr>"

definition edit_request_bare :: EditQuestionRequest where
  "edit_request_bare =
     \<lparr>eq_question_id = Some 99, eq_description = None, eq_position = None,
      eq_question_type = None, eq_required = None, eq_image_urls = None,
      eq_translations = None\<rparr>"

definition world_with_default :: "int option \<Rightarrow> database \<Rightarrow> world" where
  "world_with_default d db =
     (world_of db)\<lparr>defaults := \<lparr>fqt_position_default = d, submitted_at_default = None\<rparr>\<rparr>"

text \<open>The createQuestion request and the getAllQuestions query of the spec's scenario.\<close>

definition create_request :: CreateQuestionRequest where
  "create_request =
     \<lparr>cq_username = Some ''a@b.com'', cq_form_type = Some ''flash'',
      cq_form_language = Some ''en'',
      cq_question = Some \<lparr>qd_description = Some ''d'', qd_question_type = Some ''text'',
                           qd_required = None, qd_question_text = Some ''Q1?'',
                           qd_image_urls = None\<rparr>,
      cq_options = None\<rparr>"

definition questions_query :: getAllQuestions_query where
  "questions_query =
     \<lparr>gq_username = Some ''a@b.com'', gq_formLanguage = Some ''en'',
      gq_formType = Some ''flash''\<rparr>"

text \<open>The process after one and after two successful createQuestion calls on the empty form.\<close>

definition created_once :: "int option \<Rightarrow> world" where
  "created_once d = snd (createQuestion create_request (world_with_default d db_empty_form))"

definition created_twice :: "int option \<Rightarrow> world" where
  "created_twice d = snd (createQuestion create_request (created_once d))"

text \<open>The empty form with one response submitted to it.\<close>

definition db_response_only :: database where
  "db_response_only =
     db_empty_form\<lparr>responses := [\<lparr>r_id = 1, r_form_id = 1, r_submitted_at = None\<rparr>]\<rparr>"







definition translation_request_en :: AddQuestionTranslationRequest where
  "translation_request_en =
     \<lparr>aq_question_id = Some 1, aq_language = Some ''en'', aq_question_text = Some ''Q1 again?'',
      aq_form_type = Some ''flash'', aq_options = None\<rparr>"

definition translation_request_bad_type :: AddQuestionTranslationRequest where
  "translation_request_bad_type =
     \<lparr>aq_question_id = Some 1, aq_language = Some ''en'', aq_question_text = Some ''Q1 again?'',
      aq_form_type = Some ''survey'', aq_options = None\<rparr>"

subsection \<open>Notions used in the statements\<close>

text \<open>The number of commas of a string.\<close>

definition commas :: "string \<Rightarrow> nat" where
  "commas s = length (filter (\<lambda>c. c = CHR '','') s)"

text \<open>The questions of a form: those linked, through a translation, to a translation of the form.\<close>

definition form_questions :: "database \<Rightarrow> nat \<Rightarrow> nat list" where
  "form_questions db formId =
     [q_id q.
        q \<leftarrow> questions db,
        qt \<leftarrow> question_translations db, q_id q = qt_question_id qt,
        fqt \<leftarrow> form_question_translations db, qt_id qt = fqt_question_translation_id fqt,
        ft \<leftarrow> form_translations db, fqt_form_translation_id fqt = ft_id ft,
        ft_form_id ft = formId]"



text \<open>
  An answer at which the loop of createResponse returns: it carries no \<open>question_id\<close>, or
  the lookup of its question within the form finds no row.
\<close>

definition unanswerable :: "database \<Rightarrow> nat \<Rightarrow> AnswerData \<Rightarrow> bool" where
  "unanswerable db form_id a =
     (case ad_question_id a of
        None \<Rightarrow> True
      | Some question_id \<Rightarrow> select_question_in_form db question_id form_id = [])"

subsection \<open>The aggregation as the spec words it\<close>

text \<open>
  The rows are visited in arrival order.  \<open>first_seen\<close> keeps, for each question id, the
  first row that carries it; \<open>children\<close> lists the options of a question in arrival
  order; \<open>materialize\<close> is the parent built from its first row, with its children sorted
  by position; \<open>aggregate_spec\<close> sorts the parents, taken in arrival order, by position.
  \<open>entry\<close> is the property stored under a question id by the grouping loop.
\<close>

definition first_seen :: "qrow list \<Rightarrow> qrow list" where
  "first_seen rows =
     foldl (\<lambda>seen r. if row_questionId r \<in> row_questionId ` set seen then seen else seen @ [r])
       [] rows"

definition option_of_row :: "qrow \<Rightarrow> option_json list" where
  "option_of_row r =
     (case row_optionId r of
        None \<Rightarrow> []
      | Some oid \<Rightarrow>
          if oid = 0 then []
          else [\<lparr>optionId = oid, optionDescription = row_optionDescription r,
                 position = row_optionPosition r\<rparr>])"

definition children :: "qrow list \<Rightarrow> nat \<Rightarrow> option_json list" where
  "children rows k = concat (map option_of_row (filter (\<lambda>r. row_questionId r = k) rows))"

definition materialize :: "qrow list \<Rightarrow> qrow \<Rightarrow> question_json" where
  "materialize rows r =
     (new_question r)
       \<lparr>options := sort_key (\<lambda>a. num (position a)) (children rows (row_questionId r))\<rparr>"

definition aggregate_spec :: "qrow list \<Rightarrow> question_json list" where
  "aggregate_spec rows =
     sort_key (\<lambda>q. num (qposition q)) (map (materialize rows) (first_seen rows))"

definition entry :: "qrow list \<Rightarrow> qrow \<Rightarrow> nat \<times> question_json" where
  "entry rows r = (row_questionId r, (new_question r)\<lparr>options := children rows (row_questionId r)\<rparr>)"

text \<open>Rows of the joined query, for concrete inputs.\<close>

definition plain_row :: "nat \<Rightarrow> int option \<Rightarrow> (nat \<times> int option) option \<Rightarrow> qrow" where
  "plain_row qid qpos opt =
     \<lparr>row_questionId = qid, row_description = ''d'', row_question_type = ''radio'',
      row_required = False, row_question_text = ''Q'',
      row_optionId = map_option fst opt,
      row_optionDescription = map_option (\<lambda>_. ''o'') opt,
      row_optionPosition = Option.bind opt snd,
      row_questionPosition = qpos, row_form_id = 1\<rparr>"

definition rows_tie :: "qrow list" where
  "rows_tie = [plain_row 5 (Some 1) None, plain_row 3 (Some 1) None]"

definition rows_example :: "qrow list" where
  "rows_example =
     [plain_row 5 (Some 2) (Some (11, Some 2)), plain_row 5 (Some 2) (Some (10, Some 1)),
      plain_row 3 (Some 1) None, plain_row 7 (Some 1) None]"

section \<open>Properties\<close>

subsection \<open>The pool promise\<close>

lemma getPool_cached:
  "poolPromise w = Some p \<Longrightarrow> getPool w = (p, w)"
  by (simp add: getPool_def)

lemma getPool_calls_cached:
  "poolPromise w = Some p \<Longrightarrow>
   fst (getPool_calls cs w) = replicate (length cs) p \<and>
   connects (snd (getPool_calls cs w)) = connects w \<and>
   poolPromise (snd (getPool_calls cs w)) = Some p"
proof (induction cs arbitrary: w)
  case Nil
  then show ?case by simp
next
  case (Cons c cs)
  let ?w = "w\<lparr>connect_error := c\<rparr>"
  have pp: "poolPromise ?w = Some p" using Cons.prems by simp
  have g: "getPool ?w = (p, ?w)" by (rule getPool_cached [OF pp])
  from Cons.IH [OF pp] show ?case
    by (auto simp: g split: prod.splits)
qed

text \<open>
  C8.  When the first call of \<open>getPool\<close> finds the store unreachable, the rejected promise
  is stored in \<open>poolPromise\<close>; every later call, whatever the environment has become,
  returns that same rejection and makes no new connection attempt.
\<close>

theorem getPool_memoizes_failure:
  assumes "poolPromise w = None" and "connect_error w = Some err"
  shows "fst (getPool w) = Rejected err \<and>
         poolPromise (snd (getPool w)) = Some (Rejected err) \<and>
         connects (snd (getPool w)) = Suc (connects w) \<and>
         fst (getPool_calls cs (snd (getPool w))) = replicate (length cs) (Rejected err) \<and>
         connects (snd (getPool_calls cs (snd (getPool w)))) = Suc (connects w)"
proof -
  have first: "getPool w = (Rejected err, w\<lparr>poolPromise := Some (Rejected err), connects := Suc (connects w)\<rparr>)"
    using assms by (simp add: getPool_def Let_def)
  have pp: "poolPromise (snd (getPool w)) = Some (Rejected err)"
    by (simp add: first)
  from getPool_calls_cached [OF pp, of cs] show ?thesis
    by (simp add: first)
qed

theorem getPool_memoizes_failure_witness:
  "poolPromise world_down = None \<and> connect_error world_down = Some ''ECONNREFUSED'' \<and>
   fst (getPool world_down) = Rejected ''ECONNREFUSED'' \<and>
   fst (getPool_calls [None, None] (snd (getPool world_down))) =
     [Rejected ''ECONNREFUSED'', Rejected ''ECONNREFUSED''] \<and>
   connects (snd (getPool_calls [None, None] (snd (getPool world_down)))) = 1"
  using getPool_memoizes_failure [of world_down "''ECONNREFUSED''" "[None, None]"]
  by (simp add: world_down_def world_of_def)

subsection \<open>Validation before any statement\<close>

text \<open>
  C7.  When the language of an addQuestionTranslation request is neither \<open>en\<close> nor
  \<open>es\<close>, the handler answers 400 and the world is untouched: the pool is not asked for
  and no statement is issued.
\<close>

theorem addQuestionTranslation_rejects_language:
  assumes "aq_language req \<noteq> Some ''en''" and "aq_language req \<noteq> Some ''es''"
  shows "status (fst (addQuestionTranslation req w)) = 400 \<and>
         snd (addQuestionTranslation req w) = w \<and>
         issued (snd (addQuestionTranslation req w)) = issued w"
  using assms
  by (simp add: addQuestionTranslation_def createErrorResponse_def split: option.splits)

theorem addQuestionTranslation_rejects_language_witness:
  "aq_language translation_request_fr \<noteq> Some ''en'' \<and>
   aq_language translation_request_fr \<noteq> Some ''es'' \<and>
   status (fst (addQuestionTranslation translation_request_fr (world_of db_one_question))) = 400 \<and>
   issued (snd (addQuestionTranslation translation_request_fr (world_of db_one_question))) = []"
  using addQuestionTranslation_rejects_language
          [of translation_request_fr "world_of db_one_question"]
  by (simp add: translation_request_fr_def world_of_def)

subsection \<open>editQuestion without any field\<close>

lemma getPool_Resolved_frame:
  "fst (getPool w) = Resolved \<Longrightarrow>
   store (snd (getPool w)) = store w \<and> snapshot (snd (getPool w)) = snapshot w \<and>
   issued (snd (getPool w)) = issued w \<and> defaults (snd (getPool w)) = defaults w"
  by (simp add: getPool_def Let_def split: option.splits)

lemma getPool_frame:
  "store (snd (getPool w)) = store w \<and> snapshot (snd (getPool w)) = snapshot w \<and>
   issued (snd (getPool w)) = issued w \<and> defaults (snd (getPool w)) = defaults w"
  by (simp add: getPool_def Let_def split: option.splits)

text \<open>
  C10, as stated, fails when the pool is not available.  On \<open>world_down\<close>, where the
  connection attempt is rejected, the request that carries \<open>question_id\<close> and nothing else
  is answered 500, not 200.
\<close>

theorem editQuestion_without_fields_pool_down_counterexample:
  "eq_question_id edit_request_bare = Some 99 \<and>
   eq_description edit_request_bare = None \<and> eq_position edit_request_bare = None \<and>
   eq_question_type edit_request_bare = None \<and> eq_required edit_request_bare = None \<and>
   eq_image_urls edit_request_bare = None \<and> eq_translations edit_request_bare = None \<and>
   fst (editQuestion edit_request_bare world_down) =
     \<lparr>status = 500, jsonBody = ErrorBody ''Internal Server Error: ECONNREFUSED''\<rparr> \<and>
   status (fst (editQuestion edit_request_bare world_down)) \<noteq> 200"
  by (simp add: edit_request_bare_def world_down_def world_of_def editQuestion_def
        getPool_def createErrorResponse_def Let_def)

text \<open>
  C10, amended.  An editQuestion request that carries \<open>question_id\<close> and nothing else (no
  optional field, translations missing or empty) issues no statement and leaves every
  table as it was.  It answers 200 "Question updated successfully" when the pool promise
  resolves, whether or not a question of that id exists, and 500 with the connection error
  when the pool promise is rejected.
\<close>

theorem editQuestion_without_fields:
  assumes "eq_question_id body = Some qid"
    and "eq_description body = None" and "eq_position body = None"
    and "eq_question_type body = None" and "eq_required body = None"
    and "eq_image_urls body = None"
    and "eq_translations body = None \<or> eq_translations body = Some []"
  shows "fst (editQuestion body w) =
           (case fst (getPool w) of
              Resolved \<Rightarrow>
                \<lparr>status = 200, jsonBody = MessageBody ''Question updated successfully''\<rparr>
            | Rejected err \<Rightarrow>
                \<lparr>status = 500, jsonBody = ErrorBody (''Internal Server Error: '' @ err)\<rparr>) \<and>
         issued (snd (editQuestion body w)) = issued w \<and>
         store (snd (editQuestion body w)) = store w \<and>
         snapshot (snd (editQuestion body w)) = snapshot w"
proof -
  obtain p w1 where g: "getPool w = (p, w1)"
    by (cases "getPool w")
  have fr: "issued w1 = issued w \<and> store w1 = store w \<and> snapshot w1 = snapshot w"
    using getPool_frame [of w] by (simp add: g)
  have e: "editQuestion body w =
             (case p of
                Resolved \<Rightarrow>
                  \<lparr>status = 200, jsonBody = MessageBody ''Question updated successfully''\<rparr>
              | Rejected err \<Rightarrow>
                  \<lparr>status = 500, jsonBody = ErrorBody (''Internal Server Error: '' @ err)\<rparr>,
              w1)"
    using assms
    by (cases p) (auto simp: editQuestion_def has_update_fields_def g createErrorResponse_def)
  show ?thesis by (simp add: e fr g)
qed

theorem editQuestion_without_fields_witness:
  "eq_question_id edit_request_bare = Some 99 \<and>
   select_question db_one_question 99 = [] \<and>
   fst (editQuestion edit_request_bare (world_of db_one_question)) =
     \<lparr>status = 200, jsonBody = MessageBody ''Question updated successfully''\<rparr> \<and>
   issued (snd (editQuestion edit_request_bare (world_of db_one_question))) = [] \<and>
   store (snd (editQuestion edit_request_bare (world_of db_one_question))) = db_one_question \<and>
   fst (editQuestion edit_request_bare world_down) =
     \<lparr>status = 500, jsonBody = ErrorBody ''Internal Server Error: ECONNREFUSED''\<rparr> \<and>
   issued (snd (editQuestion edit_request_bare world_down)) = [] \<and>
   store (snd (editQuestion edit_request_bare world_down)) = db_empty_form"
  using editQuestion_without_fields [of edit_request_bare 99 "world_of db_one_question"]
        editQuestion_without_fields [of edit_request_bare 99 world_down]
  by (simp add: edit_request_bare_def world_down_def world_of_def getPool_def
        select_question_def db_one_question_def db_empty_form_def Let_def)

subsection \<open>The selected options of an answer, written and read back\<close>

lemma length_split_comma: "length (split_comma s) = Suc (commas s)"
  by (induction s) (auto simp: commas_def split: list.splits)

lemma split_comma_no_comma: "CHR '','' \<notin> set x \<Longrightarrow> split_comma x = [x]"
  by (induction x) auto

lemma split_comma_append:
  "CHR '','' \<notin> set x \<Longrightarrow> split_comma (x @ CHR '','' # s) = x # split_comma s"
  by (induction x) auto

lemma split_join_comma:
  "xs \<noteq> [] \<Longrightarrow> \<forall>x\<in>set xs. CHR '','' \<notin> set x \<Longrightarrow> split_comma (join_comma xs) = xs"
  by (induction xs rule: join_comma.induct) (auto simp: split_comma_no_comma split_comma_append)

lemma commas_join_comma:
  "xs \<noteq> [] \<Longrightarrow> Suc (commas (join_comma xs)) = length xs + sum_list (map commas xs)"
  by (induction xs rule: join_comma.induct) (auto simp: commas_def)

lemma join_comma_Nil_iff: "join_comma xs = [] \<longleftrightarrow> xs = [] \<or> xs = [[]]"
  by (induction xs rule: join_comma.induct) auto

lemma commas_pos: "CHR '','' \<in> set x \<Longrightarrow> 0 < commas x"
  by (simp add: commas_def filter_empty_conv)

lemma sum_commas_pos: "x \<in> set xs \<Longrightarrow> CHR '','' \<in> set x \<Longrightarrow> 0 < sum_list (map commas xs)"
  by (induction xs) (auto dest: commas_pos)

lemma length_split_join_comma:
  assumes "x \<in> set xs" and "CHR '','' \<in> set x"
  shows "length xs < length (split_comma (join_comma xs))"
proof -
  have "xs \<noteq> []" using assms by auto
  from commas_join_comma [OF this] sum_commas_pos [OF assms]
  show ?thesis by (simp add: length_split_comma)
qed

lemma round_trip_unfold:
  "read_selected_options (store_selected_options (Some xs)) =
     (if join_comma xs = [] then None else Some (split_comma (join_comma xs)))"
  by (simp add: read_selected_options_def store_selected_options_def)

text \<open>
  C9, as stated, fails: the list \<open>["a", ""]\<close> has an empty label and is read back
  unchanged.
\<close>

theorem selected_options_empty_label_counterexample:
  "\<not> (read_selected_options (store_selected_options (Some [''a'', ''''])) = Some [''a'', ''''] \<longleftrightarrow>
      (\<forall>x\<in>set [''a'', '''']. x \<noteq> [] \<and> CHR '','' \<notin> set x))"
  by (simp add: round_trip_unfold)

text \<open>
  C9, amended.  createResponse stores the list joined with commas and getResponse splits
  the stored string.  The list is read back unchanged exactly when no label contains a
  comma and the joined string is not empty, that is, when the list is neither empty nor the
  single empty label.  When a label contains a comma, more options are read than were
  written.  When the joined string is empty, and when no list was sent, the field is read
  as absent.
\<close>

theorem selected_options_round_trip:
  "(read_selected_options (store_selected_options (Some xs)) = Some xs \<longleftrightarrow>
      (\<forall>x\<in>set xs. CHR '','' \<notin> set x) \<and> join_comma xs \<noteq> []) \<and>
   (join_comma xs = [] \<longleftrightarrow> xs = [] \<or> xs = [[]]) \<and>
   ((\<exists>x\<in>set xs. CHR '','' \<in> set x) \<longrightarrow>
      (\<exists>ys. read_selected_options (store_selected_options (Some xs)) = Some ys \<and>
            length xs < length ys)) \<and>
   (join_comma xs = [] \<longrightarrow> read_selected_options (store_selected_options (Some xs)) = None) \<and>
   read_selected_options (store_selected_options None) = None"
proof -
  have a: "read_selected_options (store_selected_options (Some xs)) = Some xs \<longleftrightarrow>
      (\<forall>x\<in>set xs. CHR '','' \<notin> set x) \<and> join_comma xs \<noteq> []"
  proof (cases "join_comma xs = []")
    case True
    then show ?thesis by (simp add: round_trip_unfold)
  next
    case False
    then have ne: "xs \<noteq> []" by auto
    show ?thesis
    proof (cases "\<forall>x\<in>set xs. CHR '','' \<notin> set x")
      case True
      with False ne show ?thesis by (simp add: round_trip_unfold split_join_comma)
    next
      case False
      then obtain x where "x \<in> set xs" "CHR '','' \<in> set x" by auto
      from length_split_join_comma [OF this] have "split_comma (join_comma xs) \<noteq> xs" by auto
      with False \<open>join_comma xs \<noteq> []\<close> show ?thesis by (simp add: round_trip_unfold)
    qed
  qed
  have b: "(\<exists>x\<in>set xs. CHR '','' \<in> set x) \<longrightarrow>
      (\<exists>ys. read_selected_options (store_selected_options (Some xs)) = Some ys \<and>
            length xs < length ys)"
  proof
    assume "\<exists>x\<in>set xs. CHR '','' \<in> set x"
    then obtain x where x: "x \<in> set xs" "CHR '','' \<in> set x" by auto
    then have "join_comma xs \<noteq> []"
      by (auto simp: join_comma_Nil_iff)
    with length_split_join_comma [OF x]
    show "\<exists>ys. read_selected_options (store_selected_options (Some xs)) = Some ys \<and>
            length xs < length ys"
      by (simp add: round_trip_unfold)
  qed
  have c: "read_selected_options (store_selected_options None) = None"
    by (simp add: read_selected_options_def store_selected_options_def)
  show ?thesis using a b c
    by (simp add: round_trip_unfold join_comma_Nil_iff)
qed

theorem selected_options_round_trip_witness:
  "read_selected_options (store_selected_options (Some [''red'', ''blue''])) =
     Some [''red'', ''blue''] \<and>
   (\<exists>ys. read_selected_options (store_selected_options (Some [''x,y'', ''z''])) = Some ys \<and>
         2 < length ys) \<and>
   read_selected_options (store_selected_options (Some [''''])) = None"
  using selected_options_round_trip [of "[''red'', ''blue'']"]
        selected_options_round_trip [of "[''x,y'', ''z'']"]
        selected_options_round_trip [of "['''']"]
  by (auto simp: numeral_2_eq_2)

subsection \<open>Empty results of the two read handlers\<close>

lemma sort_key_Nil_iff: "sort_key f xs = [] \<longleftrightarrow> xs = []"
  by (metis length_0_conv length_sort)

lemma if_Nil_iff: "(if b then xs else []) = [] \<longleftrightarrow> (b \<longrightarrow> xs = [])"
  by simp

lemma form_questions_Nil_iff:
  "form_questions db formId = [] \<longleftrightarrow>
   \<not> (\<exists>q\<in>set (questions db). \<exists>qt\<in>set (question_translations db).
        \<exists>fqt\<in>set (form_question_translations db). \<exists>ft\<in>set (form_translations db).
          q_id q = qt_question_id qt \<and> qt_id qt = fqt_question_translation_id fqt \<and>
          fqt_form_translation_id fqt = ft_id ft \<and> ft_form_id ft = formId)"
  unfolding form_questions_def
  by (simp only: concat_eq_Nil_conv set_map ball_simps if_Nil_iff list.simps) blast

lemma select_answers_Nil_iff_linked:
  "select_answers db rid formId = [] \<longleftrightarrow>
   \<not> (\<exists>q\<in>set (questions db). \<exists>qt\<in>set (question_translations db).
        \<exists>fqt\<in>set (form_question_translations db). \<exists>ft\<in>set (form_translations db).
          q_id q = qt_question_id qt \<and> qt_id qt = fqt_question_translation_id fqt \<and>
          fqt_form_translation_id fqt = ft_id ft \<and> ft_form_id ft = formId)"
proof -
  have ne: "\<And>xs. (\<forall>a\<in>set (left_join xs). False) = False"
    by (simp add: left_join_def)
  show ?thesis
    unfolding select_answers_def sort_key_Nil_iff
    by (simp only: concat_eq_Nil_conv set_map ball_simps if_Nil_iff list.simps ne) blast
qed

lemma select_answers_Nil_iff:
  "select_answers db rid formId = [] \<longleftrightarrow> form_questions db formId = []"
  by (simp only: select_answers_Nil_iff_linked form_questions_Nil_iff)

text \<open>
  C5.  With a connected pool: getAllQuestions (GET) answers 404 when its three parameters
  are given, the user exists and the question query returns no row; getResponse answers
  200 with an empty list of questions when the response exists and its form has no
  question.
\<close>

theorem empty_results_differ:
  assumes "fst (getPool w) = Resolved"
  shows "(gq_username req = Some u \<and> u \<noteq> [] \<and> gq_formLanguage req = Some l \<and> l \<noteq> [] \<and>
          gq_formType req = Some t \<and> t \<noteq> [] \<and>
          select_user (store w) u = userId # others \<and>
          select_questions (store w) userId t l = []
          \<longrightarrow> status (fst (getAllQuestions req w)) = 404 \<and>
              jsonBody (fst (getAllQuestions req w)) =
                ErrorBody ''No questions found for the specified criteria'') \<and>
         (select_response (store w) rid = r # rs \<and> form_questions (store w) (r_form_id r) = []
          \<longrightarrow> status (fst (getResponse (Some rid) w)) = 200 \<and>
              jsonBody (fst (getResponse (Some rid) w)) =
                ResponseDataBody (r_id r) (r_submitted_at r) (r_form_id r) [])"
proof -
  obtain w1 where g: "getPool w = (Resolved, w1)"
    using assms by (cases "getPool w") simp
  have fr: "store w1 = store w"
    using getPool_Resolved_frame [OF assms] by (simp add: g)
  show ?thesis
    by (simp add: getAllQuestions_def getResponse_def g fr query_def issue_def falsy_def
          text_of_def createErrorResponse_def select_answers_Nil_iff)
qed

theorem empty_results_differ_witness:
  "fst (getPool (world_of db_response_only)) = Resolved \<and>
   select_user db_response_only ''a@b.com'' = [1] \<and>
   select_questions db_response_only 1 ''flash'' ''en'' = [] \<and>
   status (fst (getAllQuestions questions_query (world_of db_response_only))) = 404 \<and>
   select_response db_response_only 1 = [\<lparr>r_id = 1, r_form_id = 1, r_submitted_at = None\<rparr>] \<and>
   form_questions db_response_only 1 = [] \<and>
   fst (getResponse (Some 1) (world_of db_response_only)) =
     \<lparr>status = 200, jsonBody = ResponseDataBody 1 None 1 []\<rparr>"
proof -
  have p: "fst (getPool (world_of db_response_only)) = Resolved"
    by (simp add: getPool_def world_of_def)
  have s: "store (world_of db_response_only) = db_response_only"
    by (simp add: world_of_def)
  have u: "select_user db_response_only ''a@b.com'' = [1]"
    by (simp add: select_user_def db_response_only_def db_empty_form_def)
  have q: "select_questions db_response_only 1 ''flash'' ''en'' = []"
    by (simp add: select_questions_def db_response_only_def db_empty_form_def)
  have r: "select_response db_response_only 1 =
             [\<lparr>r_id = 1, r_form_id = 1, r_submitted_at = None\<rparr>]"
    by (simp add: select_response_def db_response_only_def db_empty_form_def)
  have f: "form_questions db_response_only 1 = []"
    by (simp add: form_questions_def db_response_only_def db_empty_form_def)
  from empty_results_differ [OF p, of questions_query "''a@b.com''" "''en''" "''flash''" 1 "[]" 1
         "\<lparr>r_id = 1, r_form_id = 1, r_submitted_at = None\<rparr>" "[]"] p s u q r f
  show ?thesis
    by (simp add: questions_query_def http_response.equality)
qed

subsection \<open>The position of a created question\<close>

lemmas sql_defs =
  select_user_def select_user_form_def select_form_translation_def
  select_max_question_position_def insert_question_def insert_question_translation_def
  select_max_option_position_def insert_option_def insert_option_translation_def
  insert_form_question_translation_def select_questions_def left_join_def sql_max_def
  isnull_def next_id_def

lemmas io_defs =
  query_def exec_def issue_def tx_begin_def tx_commit_def tx_rollback_def getPool_def
  createErrorResponse_def falsy_def text_of_def

lemmas group_defs =
  group_questions_def add_row_def new_question_def object_values_def is_array_index_def
  push_option_def num_def

lemma created_once_eval:
  "createQuestion create_request (world_with_default d db_empty_form) =
     (\<lparr>status = 201, jsonBody = QuestionCreated 1\<rparr>,
      \<lparr>poolPromise = Some Resolved, connect_error = None, connects = 1,
       defaults = \<lparr>fqt_position_default = d, submitted_at_default = None\<rparr>,
       store = db_empty_form
         \<lparr>questions := [\<lparr>q_id = 1, q_description = ''d'', q_question_type = ''text'',
                         q_required = False, q_position = Some 1, q_image_urls = None\<rparr>],
          question_translations := [\<lparr>qt_id = 1, qt_question_id = 1, qt_language = ''en'',
                                     qt_question_text = ''Q1?''\<rparr>],
          form_question_translations := [\<lparr>fqt_form_translation_id = 1,
                                          fqt_question_translation_id = 1,
                                          fqt_position = d\<rparr>]\<rparr>,
       snapshot = None,
       issued = [Begin, Select ''users'', Select ''forms'', Select ''form_translations'',
                 Select ''questions'', Insert ''questions'', Insert ''question_translations'',
                 Insert ''form_question_translations'', Commit],
       write_errors = []\<rparr>)"
  by (simp add: createQuestion_def createQuestion_tx_def createQuestion_insert_def create_request_def
        world_with_default_def world_of_def db_empty_form_def sql_defs io_defs Let_def)

text \<open>
  C1 on the code.  On the empty form of the scenario, whatever the default \<open>d\<close> of the
  position column of \<open>form_question_translations\<close>: the first createQuestion answers 201
  with id 1 and stores position 1 in \<open>questions\<close>, the second answers 201 with id 2 and
  stores position 2, and getAllQuestions then lists both questions with position \<open>d\<close>,
  the value of the column createQuestion does not write.
\<close>

theorem createQuestion_position_not_listed:
  "fst (createQuestion create_request (world_with_default d db_empty_form)) =
     \<lparr>status = 201, jsonBody = QuestionCreated 1\<rparr> \<and>
   fst (createQuestion create_request (created_once d)) =
     \<lparr>status = 201, jsonBody = QuestionCreated 2\<rparr> \<and>
   map q_position (questions (store (created_twice d))) = [Some 1, Some 2] \<and>
   fst (getAllQuestions questions_query (created_once d)) =
     \<lparr>status = 200,
      jsonBody = QuestionsBody 1
        [\<lparr>questionId = 1, description = ''d'', question_type = ''text'', required = False,
          question_text = ''Q1?'', options = [], qposition = d\<rparr>]\<rparr> \<and>
   fst (getAllQuestions questions_query (created_twice d)) =
     \<lparr>status = 200,
      jsonBody = QuestionsBody 1
        [\<lparr>questionId = 1, description = ''d'', question_type = ''text'', required = False,
          question_text = ''Q1?'', options = [], qposition = d\<rparr>,
         \<lparr>questionId = 2, description = ''d'', question_type = ''text'', required = False,
          question_text = ''Q1?'', options = [], qposition = d\<rparr>]\<rparr>"
  by (simp add: created_twice_def created_once_def created_once_eval)
     (simp add: createQuestion_def createQuestion_tx_def createQuestion_insert_def create_request_def
        db_empty_form_def sql_defs io_defs Let_def getAllQuestions_def questions_query_def
        group_defs)

subsection \<open>Statements, transactions and the exits of the handlers\<close>

lemma issue_simps [simp]:
  "store (issue s w) = store w" "snapshot (issue s w) = snapshot w"
  "issued (issue s w) = issued w @ [s]" "defaults (issue s w) = defaults w"
  "write_errors (issue s w) = write_errors w"
  by (simp_all add: issue_def)

lemma tx_begin_simps [simp]:
  "store (tx_begin w) = store w" "snapshot (tx_begin w) = Some (store w)"
  "issued (tx_begin w) = issued w @ [Begin]" "defaults (tx_begin w) = defaults w"
  by (simp_all add: tx_begin_def)

lemma tx_rollback_simps [simp]:
  "snapshot w = Some s \<Longrightarrow> store (tx_rollback w) = s"
  "snapshot (tx_rollback w) = None"
  "issued (tx_rollback w) = issued w @ [Rollback]"
  by (simp_all add: tx_rollback_def split: option.splits)

lemma tx_commit_simps [simp]:
  "store (tx_commit w) = store w" "snapshot (tx_commit w) = None"
  "issued (tx_commit w) = issued w @ [Commit]"
  by (simp_all add: tx_commit_def)


lemma status_createErrorResponse [simp]:
  "status (createErrorResponse n msg) = n" "jsonBody (createErrorResponse n msg) = ErrorBody msg"
  by (simp_all add: createErrorResponse_def)

lemma status_caught [simp]: "status (caught err) = 500"
  by (simp add: caught_def)

lemma fst_insert [simp]:
  "fst (insert_question d t r p u db) = [next_id (map q_id (questions db))]"
  "fst (insert_question_translation q l x db) = [next_id (map qt_id (question_translations db))]"
  "fst (insert_option q p db) = [next_id (map qo_id (question_options db))]"
  "fst (insert_response dflt f db) = [next_id (map r_id (responses db))]"
  by (simp_all add: insert_question_def insert_question_translation_def insert_option_def
        insert_response_def Let_def)

lemma query_simps [simp]:
  "fst (query s f w) = f (store w)" "snd (query s f w) = issue s w"
  by (simp_all add: query_def)




lemma exec_frame [simp]:
  "snapshot (snd (exec s f w)) = snapshot w" "issued (snd (exec s f w)) = issued w @ [s]"
  "defaults (snd (exec s f w)) = defaults w"
  by (auto simp: exec_def split: list.splits option.splits)



lemma select_question_in_form_cong:
  "questions db' = questions db \<Longrightarrow> question_translations db' = question_translations db \<Longrightarrow>
   form_question_translations db' = form_question_translations db \<Longrightarrow>
   form_translations db' = form_translations db \<Longrightarrow>
   select_question_in_form db' q f = select_question_in_form db q f"
  by (simp add: select_question_in_form_def cong: if_cong)

lemma select_question_in_form_insert_answer [simp]:
  "select_question_in_form (snd (insert_answer r q a db)) q' f = select_question_in_form db q' f"
  by (rule select_question_in_form_cong) (simp_all add: insert_answer_def)

lemma select_question_in_form_insert_response [simp]:
  "select_question_in_form (snd (insert_response d f0 db)) q' f = select_question_in_form db q' f"
  by (rule select_question_in_form_cong) (simp_all add: insert_response_def Let_def)

lemma unanswerable_insert [simp]:
  "unanswerable (snd (insert_answer r q a db)) f = unanswerable db f"
  "unanswerable (snd (insert_response d f0 db)) f = unanswerable db f"
  by (rule ext, simp add: unanswerable_def cong: option.case_cong)+










lemma addQuestionTranslation_cases:
  "(snd (addQuestionTranslation req w) = w \<and> status (fst (addQuestionTranslation req w)) = 400) \<or>
   (snd (addQuestionTranslation req w) = snd (getPool w) \<and>
    status (fst (addQuestionTranslation req w)) = 500) \<or>
   (\<exists>qid. aq_question_id req = Some qid \<and> fst (getPool w) = Resolved \<and>
      addQuestionTranslation req w =
        addQuestionTranslation_tx qid (text_of (aq_language req)) req (snd (getPool w)))"
  by (cases "getPool w"; cases "fst (getPool w)")
     (auto simp: addQuestionTranslation_def split: option.splits)










lemmas world_defs = world_of_def db_one_question_def db_empty_form_def

subsection \<open>Error exits after the first write\<close>




subsection \<open>createResponse with an answer to a question of another form\<close>




subsection \<open>addQuestionTranslation for a pair already translated\<close>

lemma addQuestionTranslation_tx_existing:
  "select_existing_translation (store w1) qid lang \<noteq> [] \<Longrightarrow>
   addQuestionTranslation_tx qid lang req w1 =
     (if select_question (store w1) qid = []
      then (createErrorResponse 404 ''Question not found'',
            tx_rollback (issue (Select ''questions'') (tx_begin w1)))
      else (createErrorResponse 409 ''A translation for this language already exists'',
            tx_rollback (issue (Select ''question_translations'')
                           (issue (Select ''questions'') (tx_begin w1)))))"
  by (auto simp: addQuestionTranslation_tx_def query_def Let_def split: list.splits)

text \<open>
  C4, as stated, fails: for a pair already translated, a request whose \<open>form_type\<close> is
  not one of the three categories is answered 400, not 409.
\<close>

theorem addQuestionTranslation_invalid_form_type_counterexample:
  "aq_question_id translation_request_bad_type = Some 1 \<and>
   aq_language translation_request_bad_type = Some ''en'' \<and>
   select_existing_translation db_one_question 1 ''en'' = [1] \<and>
   status (fst (addQuestionTranslation translation_request_bad_type
                  (world_of db_one_question))) = 400 \<and>
   status (fst (addQuestionTranslation translation_request_bad_type
                  (world_of db_one_question))) \<noteq> 409"
  by (simp add: addQuestionTranslation_def translation_request_bad_type_def world_defs
        select_existing_translation_def createErrorResponse_def falsy_def)

text \<open>
  C4, amended.  When the (question_id, language) pair of an addQuestionTranslation request
  already has a translation row, no table is changed and the response is never 201.  The
  response is 409 when, moreover, the pool is connected, the request passes the validation
  (language \<open>en\<close> or \<open>es\<close>, a question text, a form type among the three categories)
  and the question exists; the only statements issued are then the two lookups between
  \<open>begin\<close> and \<open>rollback\<close>.
\<close>

theorem addQuestionTranslation_existing_pair:
  assumes "aq_question_id req = Some qid" and "aq_language req = Some lang"
    and "select_existing_translation (store w) qid lang \<noteq> []"
  shows "store (snd (addQuestionTranslation req w)) = store w \<and>
         question_translations (store (snd (addQuestionTranslation req w))) =
           question_translations (store w) \<and>
         status (fst (addQuestionTranslation req w)) \<noteq> 201 \<and>
         (fst (getPool w) = Resolved \<and> select_question (store w) qid \<noteq> [] \<and>
          (lang = ''en'' \<or> lang = ''es'') \<and> \<not> falsy (aq_question_text req) \<and>
          (aq_form_type req = Some ''custom'' \<or> aq_form_type req = Some ''flash'' \<or>
           aq_form_type req = Some ''touchup'')
          \<longrightarrow> fst (addQuestionTranslation req w) =
                \<lparr>status = 409,
                 jsonBody = ErrorBody ''A translation for this language already exists''\<rparr> \<and>
              issued (snd (addQuestionTranslation req w)) =
                issued w @ [Begin, Select ''questions'', Select ''question_translations'',
                            Rollback])"
proof -
  have fr: "store (snd (getPool w)) = store w" "issued (snd (getPool w)) = issued w"
    using getPool_frame [of w] by simp_all
  have l: "text_of (aq_language req) = lang"
    using assms(2) by (simp add: text_of_def)
  have ex: "select_existing_translation (store (snd (getPool w))) qid lang \<noteq> []"
    using assms(3) by (simp add: fr)
  have st: "status (fst (addQuestionTranslation req w)) \<noteq> 201"
    using addQuestionTranslation_cases [of req w] assms(1)
    by (auto simp: l addQuestionTranslation_tx_existing [OF ex] split: if_splits)
  have c: "fst (getPool w) = Resolved \<and> select_question (store w) qid \<noteq> [] \<and>
          (lang = ''en'' \<or> lang = ''es'') \<and> \<not> falsy (aq_question_text req) \<and>
          (aq_form_type req = Some ''custom'' \<or> aq_form_type req = Some ''flash'' \<or>
           aq_form_type req = Some ''touchup'')
          \<longrightarrow> fst (addQuestionTranslation req w) =
                \<lparr>status = 409,
                 jsonBody = ErrorBody ''A translation for this language already exists''\<rparr> \<and>
              issued (snd (addQuestionTranslation req w)) =
                issued w @ [Begin, Select ''questions'', Select ''question_translations'',
                            Rollback]"
  proof
    assume h: "fst (getPool w) = Resolved \<and> select_question (store w) qid \<noteq> [] \<and>
          (lang = ''en'' \<or> lang = ''es'') \<and> \<not> falsy (aq_question_text req) \<and>
          (aq_form_type req = Some ''custom'' \<or> aq_form_type req = Some ''flash'' \<or>
           aq_form_type req = Some ''touchup'')"
    then obtain w1 where g: "getPool w = (Resolved, w1)"
      by (cases "getPool w") simp
    have w1: "w1 = snd (getPool w)" by (simp add: g)
    have e: "addQuestionTranslation req w = addQuestionTranslation_tx qid lang req w1"
      using h assms(1,2) by (auto simp: addQuestionTranslation_def g falsy_def text_of_def)
    show "fst (addQuestionTranslation req w) =
                \<lparr>status = 409,
                 jsonBody = ErrorBody ''A translation for this language already exists''\<rparr> \<and>
              issued (snd (addQuestionTranslation req w)) =
                issued w @ [Begin, Select ''questions'', Select ''question_translations'',
                            Rollback]"
      using h ex
      by (simp add: e w1 addQuestionTranslation_tx_existing fr createErrorResponse_def)
  qed
  have su: "store (snd (addQuestionTranslation req w)) = store w"
    using addQuestionTranslation_cases [of req w] assms(1)
    by (auto simp: l fr addQuestionTranslation_tx_existing [OF ex] split: if_splits)
  from su st c show ?thesis by simp
qed

theorem addQuestionTranslation_existing_pair_witness:
  "aq_question_id translation_request_en = Some 1 \<and>
   aq_language translation_request_en = Some ''en'' \<and>
   select_existing_translation db_one_question 1 ''en'' = [1] \<and>
   select_question db_one_question 1 = [1] \<and>
   fst (addQuestionTranslation translation_request_en (world_of db_one_question)) =
     \<lparr>status = 409,
      jsonBody = ErrorBody ''A translation for this language already exists''\<rparr> \<and>
   store (snd (addQuestionTranslation translation_request_en (world_of db_one_question))) =
     db_one_question \<and>
   issued (snd (addQuestionTranslation translation_request_en (world_of db_one_question))) =
     [Begin, Select ''questions'', Select ''question_translations'', Rollback]"
proof -
  let ?w = "world_of db_one_question"
  have r: "aq_question_id translation_request_en = Some 1"
          "aq_language translation_request_en = Some ''en''"
    by (simp_all add: translation_request_en_def)
  have s: "store ?w = db_one_question" "issued ?w = []"
    by (simp_all add: world_of_def)
  have x: "select_existing_translation db_one_question 1 ''en'' = [1]"
          "select_question db_one_question 1 = [1]"
    by (simp_all add: select_existing_translation_def select_question_def
          db_one_question_def db_empty_form_def)
  have x': "select_existing_translation (store ?w) 1 ''en'' \<noteq> []"
    using x by (simp add: s)
  have p: "fst (getPool ?w) = Resolved"
    by (simp add: getPool_def world_of_def)
  have v: "\<not> falsy (aq_question_text translation_request_en)"
          "aq_form_type translation_request_en = Some ''flash''"
    by (simp_all add: translation_request_en_def falsy_def)
  from addQuestionTranslation_existing_pair [OF r x'] r s x p v
  show ?thesis by simp
qed

subsection \<open>The aggregation of getAllQuestions\<close>

lemma first_seen_snoc:
  "first_seen (rows @ [r]) =
     (if row_questionId r \<in> row_questionId ` set (first_seen rows) then first_seen rows
      else first_seen rows @ [r])"
  by (simp add: first_seen_def)

lemma first_seen_Nil [simp]: "first_seen [] = []"
  by (simp add: first_seen_def)

lemma ids_first_seen: "row_questionId ` set (first_seen rows) = row_questionId ` set rows"
  by (induction rows rule: rev_induct) (auto simp: first_seen_snoc)

lemma distinct_first_seen: "distinct (map row_questionId (first_seen rows))"
  by (induction rows rule: rev_induct) (auto simp: first_seen_snoc)

lemma set_first_seen: "set (first_seen rows) \<subseteq> set rows"
  by (induction rows rule: rev_induct) (auto simp: first_seen_snoc)

lemma children_snoc:
  "children (rows @ [r]) k =
     children rows k @ (if row_questionId r = k then option_of_row r else [])"
  by (simp add: children_def)

lemma children_Nil [simp]: "children [] k = []"
  by (simp add: children_def)

lemma map_of_entries:
  "map_of (map (entry rows') xs) k = None \<longleftrightarrow> k \<notin> row_questionId ` set xs"
  by (induction xs) (auto simp: entry_def)

lemma entry_unseen:
  assumes "row_questionId r \<notin> row_questionId ` set rows"
  shows "entry rows r = (row_questionId r, new_question r)"
proof -
  have "row_questionId x \<noteq> row_questionId r" if "x \<in> set rows" for x
  proof
    assume "row_questionId x = row_questionId r"
    with that have "row_questionId r \<in> row_questionId ` set rows"
      by (metis imageI)
    with assms show False by simp
  qed
  then have "filter (\<lambda>x. row_questionId x = row_questionId r) rows = []"
    by (simp add: filter_empty_conv)
  then show ?thesis
    by (simp add: entry_def children_def new_question_def)
qed

lemma add_option_entries:
  "(case row_optionId r of
      None \<Rightarrow> map (entry rows) xs
    | Some oid \<Rightarrow>
        if oid = 0 then map (entry rows) xs
        else push_option (row_questionId r)
               \<lparr>optionId = oid, optionDescription = row_optionDescription r,
                position = row_optionPosition r\<rparr> (map (entry rows) xs)) =
   map (entry (rows @ [r])) xs"
  by (auto simp: entry_def children_snoc option_of_row_def push_option_def
           split: option.splits)

lemma add_row_entries:
  "add_row (map (entry rows) (first_seen rows)) r =
     map (entry (rows @ [r])) (first_seen (rows @ [r]))"
proof -
  let ?k = "row_questionId r"
  let ?fs = "if ?k \<in> row_questionId ` set rows then first_seen rows else first_seen rows @ [r]"
  have m1: "(if map_of (map (entry rows) (first_seen rows)) ?k = None
             then map (entry rows) (first_seen rows) @ [(?k, new_question r)]
             else map (entry rows) (first_seen rows)) = map (entry rows) ?fs"
    by (simp add: map_of_entries ids_first_seen entry_unseen)
  have "add_row (map (entry rows) (first_seen rows)) r =
          (case row_optionId r of
             None \<Rightarrow> map (entry rows) ?fs
           | Some oid \<Rightarrow>
               if oid = 0 then map (entry rows) ?fs
               else push_option ?k
                      \<lparr>optionId = oid, optionDescription = row_optionDescription r,
                       position = row_optionPosition r\<rparr> (map (entry rows) ?fs))"
    unfolding add_row_def Let_def m1 ..
  also have "\<dots> = map (entry (rows @ [r])) ?fs"
    by (rule add_option_entries)
  finally show ?thesis
    by (simp add: first_seen_snoc ids_first_seen)
qed

lemma foldl_add_row:
  "foldl add_row [] rows = map (entry rows) (first_seen rows)"
  by (induction rows rule: rev_induct) (simp_all add: add_row_entries)

lemma insort_key_map:
  "insort_key f (g x) (map g xs) = map g (insort_key (\<lambda>y. f (g y)) x xs)"
  by (induction xs) auto

lemma sort_key_map:
  "sort_key f (map g xs) = map g (sort_key (\<lambda>y. f (g y)) xs)"
  by (induction xs) (auto simp: insort_key_map)

lemma object_values_array_indices:
  assumes "\<forall>e\<in>set m. is_array_index (fst e)"
  shows "object_values m = map snd (sort_key fst m)"
proof -
  have "filter (\<lambda>e. is_array_index (fst e)) m = m"
    using assms by (simp add: filter_id_conv)
  moreover have "filter (\<lambda>e. \<not> is_array_index (fst e)) m = []"
    using assms by (simp add: filter_empty_conv)
  ultimately show ?thesis by (simp add: object_values_def)
qed

lemma group_questions_eq:
  assumes "\<forall>r\<in>set rows. is_array_index (row_questionId r)"
  shows "group_questions rows =
           sort_key (\<lambda>q. num (qposition q))
             (map (materialize rows) (sort_key row_questionId (first_seen rows)))"
proof -
  have "\<forall>e\<in>set (map (entry rows) (first_seen rows)). is_array_index (fst e)"
    using assms set_first_seen [of rows] by (auto simp: entry_def)
  then have "object_values (foldl add_row [] rows) =
               map snd (map (entry rows) (sort_key row_questionId (first_seen rows)))"
    by (simp add: foldl_add_row object_values_array_indices sort_key_map entry_def)
  moreover have "materialize rows =
      (\<lambda>r. (new_question r)
             \<lparr>options := sort_key (\<lambda>a. num (position a)) (children rows (row_questionId r))\<rparr>)"
    by (rule ext) (simp add: materialize_def)
  ultimately show ?thesis
    by (simp add: group_questions_def entry_def comp_def)
qed

lemma tie_order:
  "sorted_wrt (<)
     (map questionId
        (filter (\<lambda>q. num (qposition q) = k)
           (sort_key (\<lambda>q. num (qposition q))
              (map (materialize rows) (sort_key row_questionId (first_seen rows))))))"
proof -
  let ?S = "sort_key row_questionId (first_seen rows)"
  have d: "distinct (map row_questionId ?S)"
    using distinct_first_seen [of rows]
    by (metis distinct_map distinct_sort set_sort)
  have "sorted (map row_questionId ?S)" by simp
  with d have s: "sorted_wrt (<) (map row_questionId ?S)"
    by (simp add: strict_sorted_iff)
  have q: "\<And>r. questionId (materialize rows r) = row_questionId r"
    by (simp add: materialize_def new_question_def)
  have "map questionId (filter (\<lambda>q. num (qposition q) = k) (map (materialize rows) ?S)) =
        map row_questionId (filter (\<lambda>r. num (qposition (materialize rows r)) = k) ?S)"
    by (simp add: filter_map comp_def q)
  moreover have "sorted_wrt (<)
        (map row_questionId (filter (\<lambda>r. num (qposition (materialize rows r)) = k) ?S))"
    using s by (simp add: sorted_wrt_map sorted_wrt_filter)
  ultimately show ?thesis
    by (simp add: sort_key_stable)
qed

lemmas spec_defs = aggregate_spec_def materialize_def first_seen_def children_def
  option_of_row_def new_question_def num_def plain_row_def

text \<open>
  C6, as stated, fails on the ties between parents: for two questions of equal position
  arriving as 5 then 3, the handler lists 3 before 5, while arrival order is 5 before 3.
\<close>

theorem group_questions_tie_counterexample:
  "map questionId (group_questions rows_tie) = [3, 5] \<and>
   map questionId (aggregate_spec rows_tie) = [5, 3] \<and>
   group_questions rows_tie \<noteq> aggregate_spec rows_tie"
  by (simp add: rows_tie_def group_defs spec_defs)

text \<open>
  C6, amended.  When every question id is an array index (below \<open>2^32 - 1\<close>), the
  aggregation of getAllQuestions returns the parents, each built from the first row of its
  key with the children found so far (none on first sight), sorted ascending by position
  with \<open>NULL\<close> read as 0; each parent's children are sorted ascending by their position
  and children of equal position keep their arrival order; parents of equal position are
  ordered by ascending question id.
\<close>

theorem group_questions_order:
  assumes "\<forall>r\<in>set rows. is_array_index (row_questionId r)"
  shows "group_questions rows =
           sort_key (\<lambda>q. num (qposition q))
             (map (materialize rows) (sort_key row_questionId (first_seen rows))) \<and>
         sorted (map (\<lambda>q. num (qposition q)) (group_questions rows)) \<and>
         (\<forall>q\<in>set (group_questions rows).
            options q = sort_key (\<lambda>a. num (position a)) (children rows (questionId q)) \<and>
            sorted (map (\<lambda>a. num (position a)) (options q))) \<and>
         (\<forall>k. sorted_wrt (<)
                (map questionId (filter (\<lambda>q. num (qposition q) = k) (group_questions rows))))"
proof -
  note e = group_questions_eq [OF assms]
  have o: "options q = sort_key (\<lambda>a. num (position a)) (children rows (questionId q)) \<and>
           sorted (map (\<lambda>a. num (position a)) (options q))"
    if "q \<in> set (group_questions rows)" for q
  proof -
    from that obtain r where "q = materialize rows r"
      by (auto simp: e)
    then show ?thesis
      by (simp add: materialize_def new_question_def)
  qed
  have t: "sorted_wrt (<)
             (map questionId (filter (\<lambda>q. num (qposition q) = k) (group_questions rows)))" for k
    unfolding e by (rule tie_order)
  have s: "sorted (map (\<lambda>q. num (qposition q)) (group_questions rows))"
    unfolding e by (rule sorted_sort_key)
  from e s o t show ?thesis by blast
qed

theorem group_questions_order_witness:
  "map (\<lambda>r. is_array_index (row_questionId r)) rows_example = [True, True, True, True] \<and>
   map questionId (group_questions rows_example) = [3, 7, 5] \<and>
   map qposition (group_questions rows_example) = [Some 1, Some 1, Some 2] \<and>
   map (\<lambda>q. map optionId (options q)) (group_questions rows_example) = [[], [], [10, 11]]"
proof -
  have a: "\<forall>r\<in>set rows_example. is_array_index (row_questionId r)"
    by (simp add: rows_example_def plain_row_def is_array_index_def)
  from group_questions_order [OF a] a show ?thesis
    by (simp add: rows_example_def spec_defs is_array_index_def)
qed

end
